theory Spec2Isabelle
  imports Complex_Main "HOL-Library.Word"
begin

section \<open>The LV2 bridge element (ext/lv2/gstlv2.c)\<close>

text \<open>
  The file bridges LV2 audio plugins into a media pipeline. For every plugin found it
  registers one element type; \<open>gst_lv2_base_init\<close> sorts the plugin's ports into
  groups, audio ports and control ports and declares the pads; the instance functions
  instantiate the plugin and connect buffers to its ports.

  Conventions of the embedding.
  \<^item> \<open>gfloat\<close> values are embedded in the reals. The code only copies and compares
    them (and stores the constants 0 and 1), which is exact on finite values; NaN and
    infinities are not represented.
  \<^item> \<open>guint\<close> values that the code decrements or multiplies (\<open>prop_id\<close>,
    \<open>nframes\<close>) are 32-bit words. Loop counters and array lengths are naturals:
    they are bounded by the length of an array and never wrap.
  \<^item> A \<open>GArray\<close> is a list; \<open>g_array_append_val\<close> appends at the end.
  \<^item> Calls into the SLV2 library on a plugin instance are recorded, in order, in the
    field \<open>calls\<close> of the element.
\<close>

type_synonym gfloat = real
type_synonym guint = "32 word"

subsection \<open>What SLV2 reports about a plugin\<close>

datatype port_class = Audio_class | Control_class | Input_class | Output_class
  | Other_class string

datatype port_property = Integer_prop | Toggled_prop | Other_prop string

record slv2_port =
  port_classes :: "port_class list"
  port_in_group :: "string list"
  port_symbol :: string
  port_properties :: "port_property list"
  port_default :: "gfloat option"
  port_minimum :: "gfloat option"
  port_maximum :: "gfloat option"

record slv2_plugin =
  plugin_uri :: string
  plugin_ports :: "slv2_port list"
  plugin_subject_symbols :: "(string \<times> string list) list"
  plugin_in_place_broken :: bool

definition slv2_port_is_a :: "slv2_port \<Rightarrow> port_class \<Rightarrow> bool" where
  "slv2_port_is_a port c = (c \<in> set (port_classes port))"

definition slv2_port_has_property :: "slv2_port \<Rightarrow> port_property \<Rightarrow> bool" where
  "slv2_port_has_property port x = (x \<in> set (port_properties port))"

text \<open>\<open>slv2_plugin_get_value_for_subject (lv2plugin, subject, lv2_symbol_pred)\<close>.\<close>

definition slv2_plugin_get_value_for_subject :: "slv2_plugin \<Rightarrow> string \<Rightarrow> string list" where
  "slv2_plugin_get_value_for_subject lv2plugin subject =
     (case map_of (plugin_subject_symbols lv2plugin) subject of
        None \<Rightarrow> [] | Some vs \<Rightarrow> vs)"

subsection \<open>The class structure\<close>

record gst_lv2_port =
  index :: nat
  pad :: nat

record gst_lv2_group =
  g_uri :: string
  g_pad :: nat
  g_symbol :: "string option"
  g_ports :: "gst_lv2_port list"

datatype pad_direction = GST_PAD_SRC | GST_PAD_SINK

text \<open>
  One call of \<open>gst_signal_processor_class_add_pad_template (klass, name, direction,
  index, channels)\<close>. The name of a group pad is the group's symbol, which is
  \<open>NULL\<close> (here \<open>None\<close>) when the group declares none.
\<close>

record pad_template =
  tmpl_name :: "string option"
  tmpl_direction :: pad_direction
  tmpl_index :: nat
  tmpl_channels :: nat

record gst_lv2_class =
  num_group_in :: nat
  num_group_out :: nat
  num_audio_in :: nat
  num_audio_out :: nat
  num_control_in :: nat
  num_control_out :: nat
  in_groups :: "gst_lv2_group list"
  out_groups :: "gst_lv2_group list"
  audio_in_ports :: "gst_lv2_port list"
  audio_out_ports :: "gst_lv2_port list"
  control_in_ports :: "gst_lv2_port list"
  control_out_ports :: "gst_lv2_port list"
  pad_templates :: "pad_template list"
  klass_tags :: string
  can_process_in_place :: bool
  plugin :: "slv2_plugin option"

text \<open>Find and return the group \<open>uri\<close> in \<open>groups\<close> (its position), or \<open>None\<close>.\<close>

fun gst_lv2_class_find_group :: "gst_lv2_group list \<Rightarrow> string \<Rightarrow> nat option" where
  "gst_lv2_class_find_group [] uri = None"
| "gst_lv2_class_find_group (g # groups) uri =
     (if g_uri g = uri then Some 0
      else map_option Suc (gst_lv2_class_find_group groups uri))"

subsection \<open>\<open>gst_lv2_base_init\<close>: find ports and groups\<close>

text \<open>
  The variables of the loop: the class being filled and the two pad counters
  \<open>in_pad_index\<close> and \<open>out_pad_index\<close>.
\<close>

record base_init_vars =
  klass :: gst_lv2_class
  in_pad_index :: nat
  out_pad_index :: nat

definition next_pad_index :: "bool \<Rightarrow> base_init_vars \<Rightarrow> nat \<times> base_init_vars" where
  \<comment> \<open>\<open>is_input ? in_pad_index++ : out_pad_index++\<close>\<close>
  "next_pad_index is_input v =
     (if is_input then (in_pad_index v, v\<lparr>in_pad_index := in_pad_index v + 1\<rparr>)
      else (out_pad_index v, v\<lparr>out_pad_index := out_pad_index v + 1\<rparr>))"

definition groups_of :: "bool \<Rightarrow> gst_lv2_class \<Rightarrow> gst_lv2_group list" where
  \<comment> \<open>\<open>is_input ? klass->in_groups : klass->out_groups\<close>\<close>
  "groups_of is_input k = (if is_input then in_groups k else out_groups k)"

definition store_groups :: "bool \<Rightarrow> gst_lv2_group list \<Rightarrow> gst_lv2_class \<Rightarrow> gst_lv2_class" where
  "store_groups is_input gs k = (if is_input then k\<lparr>in_groups := gs\<rparr> else k\<lparr>out_groups := gs\<rparr>)"

text \<open>The body of the loop for the port with index \<open>j\<close>.\<close>

definition base_init_port :: "slv2_plugin \<Rightarrow> nat \<Rightarrow> base_init_vars \<Rightarrow> base_init_vars" where
  "base_init_port lv2plugin j v =
     (let port = plugin_ports lv2plugin ! j;
          is_input = slv2_port_is_a port Input_class;
          desc = \<lparr>index = j, pad = 0\<rparr>;
          vals = port_in_group port
      in
      if length vals > 0 then
        \<comment> \<open>port is part of a group\<close>
        (let group_uri = vals ! 0;
             groups = groups_of is_input (klass v);
             (groups', i, v') =
               (case gst_lv2_class_find_group groups group_uri of
                  Some i \<Rightarrow> (groups, i, v)
                | None \<Rightarrow>
                    (let (p, v') = next_pad_index is_input v;
                         sub_values = slv2_plugin_get_value_for_subject lv2plugin group_uri;
                         g = \<lparr>g_uri = group_uri, g_pad = p,
                              g_symbol = (if length sub_values > 0 then Some (sub_values ! 0)
                                          else None),
                              g_ports = []\<rparr>
                     in (groups @ [g], length (groups @ [g]) - 1, v')));
             group = groups' ! i
         in v'\<lparr>klass := store_groups is_input
               (groups'[i := group\<lparr>g_ports := g_ports group @ [desc]\<rparr>]) (klass v')\<rparr>)
      else
        \<comment> \<open>port is not part of a group\<close>
        if slv2_port_is_a port Audio_class then
          (let (p, v') = next_pad_index is_input v;
               desc' = desc\<lparr>pad := p\<rparr>;
               k = klass v'
           in if is_input
              then v'\<lparr>klass := k\<lparr>audio_in_ports := audio_in_ports k @ [desc']\<rparr>\<rparr>
              else v'\<lparr>klass := k\<lparr>audio_out_ports := audio_out_ports k @ [desc']\<rparr>\<rparr>)
        else if slv2_port_is_a port Control_class then
          (let k = klass v
           in if is_input
              then v\<lparr>klass := k\<lparr>control_in_ports := control_in_ports k @ [desc]\<rparr>\<rparr>
              else v\<lparr>klass := k\<lparr>control_out_ports := control_out_ports k @ [desc]\<rparr>\<rparr>)
        else
          \<comment> \<open>unknown port type: \<open>continue\<close>\<close>
          v)"

function base_init_find_ports :: "slv2_plugin \<Rightarrow> nat \<Rightarrow> base_init_vars \<Rightarrow> base_init_vars" where
  "base_init_find_ports lv2plugin j v =
     (if j < length (plugin_ports lv2plugin)
      then base_init_find_ports lv2plugin (Suc j) (base_init_port lv2plugin j v)
      else v)"
  by pat_completeness auto
termination
  by (relation "measure (\<lambda>(lv2plugin, j, v). length (plugin_ports lv2plugin) - j)") auto

subsection \<open>\<open>gst_lv2_base_init\<close>: pad templates, tags and flags\<close>

definition gst_signal_processor_class_add_pad_template ::
  "gst_lv2_class \<Rightarrow> string option \<Rightarrow> pad_direction \<Rightarrow> nat \<Rightarrow> nat \<Rightarrow> gst_lv2_class" where
  "gst_signal_processor_class_add_pad_template k name direction idx channels =
     k\<lparr>pad_templates := pad_templates k @
        [\<lparr>tmpl_name = name, tmpl_direction = direction, tmpl_index = idx,
          tmpl_channels = channels\<rparr>]\<rparr>"

text \<open>add input group pad templates\<close>

function add_in_group_templates :: "nat \<Rightarrow> gst_lv2_class \<Rightarrow> gst_lv2_class" where
  "add_in_group_templates j k =
     (if j < num_group_in k
      then (let group = in_groups k ! j
            in add_in_group_templates (Suc j)
                 (gst_signal_processor_class_add_pad_template k (g_symbol group)
                    GST_PAD_SINK j (length (g_ports group))))
      else k)"
  by pat_completeness auto
termination
  by (relation "measure (\<lambda>(j, k). num_group_in k - j)")
    (auto simp: gst_signal_processor_class_add_pad_template_def)

text \<open>add output group pad templates\<close>

function add_out_group_templates :: "nat \<Rightarrow> gst_lv2_class \<Rightarrow> gst_lv2_class" where
  "add_out_group_templates j k =
     (if j < num_group_out k
      then (let group = out_groups k ! j
            in add_out_group_templates (Suc j)
                 (gst_signal_processor_class_add_pad_template k (g_symbol group)
                    GST_PAD_SRC j (length (g_ports group))))
      else k)"
  by pat_completeness auto
termination
  by (relation "measure (\<lambda>(j, k). num_group_out k - j)")
    (auto simp: gst_signal_processor_class_add_pad_template_def)

text \<open>add non-grouped input port pad templates\<close>

function add_audio_in_templates :: "slv2_plugin \<Rightarrow> nat \<Rightarrow> gst_lv2_class \<Rightarrow> gst_lv2_class" where
  "add_audio_in_templates lv2plugin j k =
     (if j < num_audio_in k
      then (let desc = audio_in_ports k ! j;
                port = plugin_ports lv2plugin ! index desc;
                name = port_symbol port
            in add_audio_in_templates lv2plugin (Suc j)
                 (gst_signal_processor_class_add_pad_template k (Some name) GST_PAD_SINK j 1))
      else k)"
  by pat_completeness auto
termination
  by (relation "measure (\<lambda>(lv2plugin, j, k). num_audio_in k - j)")
    (auto simp: gst_signal_processor_class_add_pad_template_def)

text \<open>add non-grouped output port pad templates\<close>

function add_audio_out_templates :: "slv2_plugin \<Rightarrow> nat \<Rightarrow> gst_lv2_class \<Rightarrow> gst_lv2_class" where
  "add_audio_out_templates lv2plugin j k =
     (if j < num_audio_out k
      then (let desc = audio_out_ports k ! j;
                port = plugin_ports lv2plugin ! index desc;
                name = port_symbol port
            in add_audio_out_templates lv2plugin (Suc j)
                 (gst_signal_processor_class_add_pad_template k (Some name) GST_PAD_SINK j 1))
      else k)"
  by pat_completeness auto
termination
  by (relation "measure (\<lambda>(lv2plugin, j, k). num_audio_out k - j)")
    (auto simp: gst_signal_processor_class_add_pad_template_def)

definition choose_klass_tags :: "gst_lv2_class \<Rightarrow> string" where
  "choose_klass_tags k =
     (if num_audio_in k = 0 then ''Source/Audio/LV2''
      else if num_audio_out k = 0 then
        (if num_control_out k = 0 then ''Sink/Audio/LV2''
         else ''Sink/Analyzer/Audio/LV2'')
      else ''Filter/Effect/Audio/LV2'')"

text \<open>The counts are the lengths of the arrays.\<close>

definition base_init_set_counts :: "gst_lv2_class \<Rightarrow> gst_lv2_class" where
  "base_init_set_counts k =
     k\<lparr>num_group_in := length (in_groups k),
       num_group_out := length (out_groups k),
       num_audio_in := length (audio_in_ports k),
       num_audio_out := length (audio_out_ports k),
       num_control_in := length (control_in_ports k),
       num_control_out := length (control_out_ports k)\<rparr>"

text \<open>The four loops that add pad templates, in the order of the source.\<close>

definition base_init_add_pad_templates :: "slv2_plugin \<Rightarrow> gst_lv2_class \<Rightarrow> gst_lv2_class" where
  "base_init_add_pad_templates lv2plugin k =
     (let k = add_in_group_templates 0 k;
          k = add_out_group_templates 0 k;
          k = add_audio_in_templates lv2plugin 0 k
      in add_audio_out_templates lv2plugin 0 k)"

text \<open>
  \<open>gst_lv2_base_init\<close> on the class structure \<open>g_class\<close> of the type registered
  for \<open>lv2plugin\<close>. The element details' name and author strings play no part below
  and are left out.
\<close>

definition gst_lv2_base_init :: "slv2_plugin \<Rightarrow> gst_lv2_class \<Rightarrow> gst_lv2_class" where
  "gst_lv2_base_init lv2plugin g_class =
     (let k = g_class\<lparr>num_group_in := 0, num_group_out := 0, num_audio_in := 0,
                      num_audio_out := 0, num_control_in := 0, num_control_out := 0,
                      in_groups := [], out_groups := [], audio_in_ports := [],
                      audio_out_ports := [], control_in_ports := [],
                      control_out_ports := []\<rparr>;
          v = base_init_find_ports lv2plugin 0
                \<lparr>klass = k, in_pad_index = 0, out_pad_index = 0\<rparr>;
          k = base_init_set_counts (klass v);
          k = base_init_add_pad_templates lv2plugin k;
          k = k\<lparr>klass_tags := choose_klass_tags k\<rparr>;
          k = (if \<not> plugin_in_place_broken lv2plugin
               then k\<lparr>can_process_in_place := True\<rparr> else k)
      in k\<lparr>plugin := Some lv2plugin\<rparr>)"

subsection \<open>Parameter specifications\<close>

datatype param_flag = G_PARAM_READABLE | G_PARAM_WRITABLE | G_PARAM_CONSTRUCT
  | GST_PARAM_CONTROLLABLE

datatype g_param_spec =
    Param_spec_boolean string bool "param_flag set"
  | Param_spec_int string int int int "param_flag set"
  | Param_spec_float string gfloat gfloat gfloat "param_flag set"

text \<open>The two \<open>GST_WARNING\<close> lines: the plugin's URI, the declared bound, the default.\<close>

datatype gst_warning =
    Lower_bound_above_default string gfloat gfloat
  | Upper_bound_below_default string gfloat gfloat

text \<open>
  C's conversion of a \<open>gfloat\<close> argument to a \<open>gint\<close> parameter: the value is
  truncated towards zero; the result is not defined (\<open>None\<close>) when it does not fit.
\<close>

definition gint_of_gfloat :: "gfloat \<Rightarrow> int option" where
  "gint_of_gfloat x =
     (let t = (if 0 \<le> x then \<lfloor>x\<rfloor> else \<lceil>x\<rceil>)
      in if - 2147483648 \<le> t \<and> t \<le> 2147483647 then Some t else None)"

text \<open>
  The call \<open>g_param_spec_int (name, name, name, lower, upper, def, perms)\<close> with
  \<open>gfloat\<close> arguments.
\<close>

definition g_param_spec_int ::
  "string \<Rightarrow> gfloat \<Rightarrow> gfloat \<Rightarrow> gfloat \<Rightarrow> param_flag set \<Rightarrow> g_param_spec option" where
  "g_param_spec_int name lower upper def perms =
     (case (gint_of_gfloat lower, gint_of_gfloat upper, gint_of_gfloat def) of
        (Some l, Some u, Some d) \<Rightarrow> Some (Param_spec_int name l u d perms)
      | _ \<Rightarrow> None)"

definition gst_lv2_class_get_param_name :: "slv2_plugin \<Rightarrow> nat \<Rightarrow> string" where
  "gst_lv2_class_get_param_name lv2plugin portnum =
     port_symbol (plugin_ports lv2plugin ! portnum)"

text \<open>
  The permissions that \<open>gst_lv2_class_get_param_spec\<close> computes first: readable;
  writable and construct for an input port; controllable for a control port.
\<close>

definition param_perms :: "slv2_port \<Rightarrow> param_flag set" where
  "param_perms port =
     (let perms = {G_PARAM_READABLE};
          perms = (if slv2_port_is_a port Input_class
                   then perms \<union> {G_PARAM_WRITABLE, G_PARAM_CONSTRUCT} else perms)
      in if slv2_port_is_a port Control_class
         then perms \<union> {GST_PARAM_CONTROLLABLE} else perms)"

text \<open>
  \<open>gst_lv2_class_get_param_spec\<close> returns the warnings it logs and the parameter
  specification it builds. The specification is \<open>None\<close> where C does not define the
  result: the class has no plugin yet, or a bound of an integer port does not fit a
  \<open>gint\<close>.
\<close>

definition gst_lv2_class_get_param_spec ::
  "gst_lv2_class \<Rightarrow> nat \<Rightarrow> gst_warning list \<times> g_param_spec option" where
  "gst_lv2_class_get_param_spec k portnum =
     (case plugin k of
        None \<Rightarrow> ([], None)
      | Some lv2plugin \<Rightarrow>
         (let port = plugin_ports lv2plugin ! portnum;
              name = gst_lv2_class_get_param_name lv2plugin portnum;
              perms = param_perms port
          in
          if slv2_port_has_property port Toggled_prop
          then ([], Some (Param_spec_boolean name False perms))
          else
           (let def = (case port_default port of Some x \<Rightarrow> x | None \<Rightarrow> 0);
                lower = (case port_minimum port of Some x \<Rightarrow> x | None \<Rightarrow> 0);
                upper = (case port_maximum port of Some x \<Rightarrow> x | None \<Rightarrow> 1);
                (w1, lower) =
                  (if def < lower
                   then ([Lower_bound_above_default (plugin_uri lv2plugin) lower def], def)
                   else ([], lower));
                (w2, upper) =
                  (if def > upper
                   then ([Upper_bound_below_default (plugin_uri lv2plugin) upper def], def)
                   else ([], upper))
            in (w1 @ w2,
                if slv2_port_has_property port Integer_prop
                then g_param_spec_int name lower upper def perms
                else Some (Param_spec_float name lower upper def perms)))))"

text \<open>
  \<open>gst_lv2_class_init\<close> installs one property per control port: the control inputs
  under the ids \<open>1, 2, \<dots>\<close> and the control outputs after them. The result lists the
  warnings logged and the installed properties with their ids.
\<close>

function install_control_in ::
  "gst_lv2_class \<Rightarrow> nat \<Rightarrow> gst_warning list \<times> (nat \<times> g_param_spec option) list
     \<Rightarrow> gst_warning list \<times> (nat \<times> g_param_spec option) list" where
  "install_control_in k i acc =
     (if i < num_control_in k
      then (let (ws, p) = gst_lv2_class_get_param_spec k (index (control_in_ports k ! i))
            in install_control_in k (Suc i) (fst acc @ ws, snd acc @ [(i + 1, p)]))
      else acc)"
  by pat_completeness auto
termination
  by (relation "measure (\<lambda>(k, i, acc). num_control_in k - i)") auto

function install_control_out ::
  "gst_lv2_class \<Rightarrow> nat \<Rightarrow> gst_warning list \<times> (nat \<times> g_param_spec option) list
     \<Rightarrow> gst_warning list \<times> (nat \<times> g_param_spec option) list" where
  "install_control_out k i acc =
     (if i < num_control_out k
      then (let (ws, p) = gst_lv2_class_get_param_spec k (index (control_out_ports k ! i))
            in install_control_out k (Suc i)
                 (fst acc @ ws, snd acc @ [(num_control_in k + i + 1, p)]))
      else acc)"
  by pat_completeness auto
termination
  by (relation "measure (\<lambda>(k, i, acc). num_control_out k - i)") auto

definition gst_lv2_class_init ::
  "gst_lv2_class \<Rightarrow> gst_warning list \<times> (nat \<times> g_param_spec option) list" where
  "gst_lv2_class_init k = install_control_out k 0 (install_control_in k 0 ([], []))"

subsection \<open>The element instance\<close>

type_synonym slv2_instance = nat

text \<open>
  Where a plugin port is connected: a slot of the element's control arrays, or a
  position (counted in samples) inside a buffer that the pipeline provides.
\<close>

datatype pointer = Control_in_slot nat | Control_out_slot nat | Buffer nat nat

fun pointer_plus :: "pointer \<Rightarrow> nat \<Rightarrow> pointer" where
  "pointer_plus (Buffer b off) n = Buffer b (off + n)"
| "pointer_plus (Control_in_slot i) n = Control_in_slot (i + n)"
| "pointer_plus (Control_out_slot i) n = Control_out_slot (i + n)"

datatype slv2_call =
    Slv2_plugin_instantiate guint
  | Slv2_instance_connect_port slv2_instance nat pointer
  | Slv2_instance_activate slv2_instance
  | Slv2_instance_deactivate slv2_instance
  | Slv2_instance_free slv2_instance
  | Slv2_instance_run slv2_instance guint

record gst_signal_processor_group =
  buffer :: pointer

text \<open>
  The element: the arrays of the signal processor base class, the two fields that
  \<open>GstLV2\<close> adds (\<open>instance\<close> and \<open>activated\<close>), and the calls made so far.
\<close>

record gst_lv2 =
  control_in :: "gfloat list"
  control_out :: "gfloat list"
  group_in :: "gst_signal_processor_group list"
  group_out :: "gst_signal_processor_group list"
  audio_in :: "pointer list"
  audio_out :: "pointer list"
  lv2_instance :: "slv2_instance option"
  activated :: bool
  calls :: "slv2_call list"

definition slv2_call :: "slv2_call \<Rightarrow> gst_lv2 \<Rightarrow> gst_lv2" where
  "slv2_call c lv2 = lv2\<lparr>calls := calls lv2 @ [c]\<rparr>"

text \<open>
  How a function of the file ends: normally, through a failed \<open>g_return_if_fail\<close> or
  \<open>g_return_if_reached\<close> (a critical message, then an early return), or in
  \<open>g_assert_not_reached\<close>.
\<close>

datatype status = Normal | Critical | Aborted

subsection \<open>Properties\<close>

datatype g_type = G_TYPE_BOOLEAN | G_TYPE_INT | G_TYPE_FLOAT | G_TYPE_OTHER

datatype g_value = G_boolean bool | G_int int | G_float gfloat

definition g_value_get_boolean :: "g_value \<Rightarrow> bool" where
  "g_value_get_boolean v = (case v of G_boolean b \<Rightarrow> b | _ \<Rightarrow> False)"

definition g_value_get_int :: "g_value \<Rightarrow> int" where
  "g_value_get_int v = (case v of G_int i \<Rightarrow> i | _ \<Rightarrow> 0)"

definition g_value_get_float :: "g_value \<Rightarrow> gfloat" where
  "g_value_get_float v = (case v of G_float x \<Rightarrow> x | _ \<Rightarrow> 0)"

text \<open>
  \<open>gst_lv2_set_property\<close>. The conversion of a \<open>gint\<close> to \<open>gfloat\<close> rounds to
  the nearest single-precision value; it is the parameter \<open>gfloat_of_gint\<close>.
\<close>

definition gst_lv2_set_property ::
  "(int \<Rightarrow> gfloat) \<Rightarrow> gst_lv2_class \<Rightarrow> gst_lv2 \<Rightarrow> guint \<Rightarrow> g_value \<Rightarrow> g_type
     \<Rightarrow> status \<times> gst_lv2" where
  "gst_lv2_set_property gfloat_of_gint gsp_class gsp prop_id val value_type =
     (let prop_id = prop_id - 1 in
      if \<not> unat prop_id < num_control_in gsp_class then (Critical, gsp)
      else
        (case value_type of
           G_TYPE_BOOLEAN \<Rightarrow>
             (Normal, gsp\<lparr>control_in := (control_in gsp)
                [unat prop_id := (if g_value_get_boolean val then 0 else 1)]\<rparr>)
         | G_TYPE_INT \<Rightarrow>
             (Normal, gsp\<lparr>control_in := (control_in gsp)
                [unat prop_id := gfloat_of_gint (g_value_get_int val)]\<rparr>)
         | G_TYPE_FLOAT \<Rightarrow>
             (Normal, gsp\<lparr>control_in := (control_in gsp)
                [unat prop_id := g_value_get_float val]\<rparr>)
         | G_TYPE_OTHER \<Rightarrow> (Aborted, gsp)))"

text \<open>
  The macro \<open>CLAMP (x, low, high)\<close>. In \<open>gst_lv2_get_property\<close> its bounds are
  \<open>G_MININT\<close> and \<open>G_MAXINT\<close> compared with a \<open>gfloat\<close>, that is, converted to
  \<open>gfloat\<close>: \<open>- 2^31\<close> and \<open>2^31\<close>.
\<close>

definition CLAMP :: "gfloat \<Rightarrow> gfloat \<Rightarrow> gfloat \<Rightarrow> gfloat" where
  "CLAMP x low high = (if x > high then high else if x < low then low else x)"

text \<open>
  What \<open>gst_lv2_get_property\<close> stores into the value: \<open>Got v\<close>; nothing after a
  critical message; or not defined, when a control value converted to \<open>gint\<close> does not
  fit.
\<close>

datatype get_result = Got g_value | Get_critical | Get_undefined

definition read_control :: "g_type \<Rightarrow> gfloat \<Rightarrow> get_result" where
  \<comment> \<open>the \<open>switch\<close> of \<open>gst_lv2_get_property\<close>, on the value of \<open>controls[prop_id]\<close>\<close>
  "read_control value_type x =
     (case value_type of
        G_TYPE_BOOLEAN \<Rightarrow> Got (G_boolean (x > 0))
      | G_TYPE_INT \<Rightarrow>
          (case gint_of_gfloat (CLAMP x (- 2147483648) 2147483648) of
             Some i \<Rightarrow> Got (G_int i) | None \<Rightarrow> Get_undefined)
      | G_TYPE_FLOAT \<Rightarrow> Got (G_float x)
      | G_TYPE_OTHER \<Rightarrow> Get_critical)"

definition gst_lv2_get_property ::
  "gst_lv2_class \<Rightarrow> gst_lv2 \<Rightarrow> guint \<Rightarrow> g_type \<Rightarrow> get_result" where
  "gst_lv2_get_property gsp_class gsp prop_id value_type =
     (let prop_id = prop_id - 1 in
      if unat prop_id < num_control_in gsp_class
      then read_control value_type (control_in gsp ! unat prop_id)
      else if unat prop_id < (num_control_in gsp_class + num_control_out gsp_class) mod 2 ^ 32
      then read_control value_type
             (control_out gsp ! unat (prop_id - word_of_nat (num_control_in gsp_class)))
      else Get_critical)"

subsection \<open>The life cycle of an instance\<close>

text \<open>connect the control ports\<close>

function connect_control_in :: "gst_lv2_class \<Rightarrow> slv2_instance \<Rightarrow> nat \<Rightarrow> gst_lv2 \<Rightarrow> gst_lv2" where
  "connect_control_in oclass inst i lv2 =
     (if i < num_control_in oclass
      then connect_control_in oclass inst (Suc i)
             (slv2_call (Slv2_instance_connect_port inst
                (index (control_in_ports oclass ! i)) (Control_in_slot i)) lv2)
      else lv2)"
  by pat_completeness auto
termination
  by (relation "measure (\<lambda>(oclass, inst, i, lv2). num_control_in oclass - i)") auto

function connect_control_out :: "gst_lv2_class \<Rightarrow> slv2_instance \<Rightarrow> nat \<Rightarrow> gst_lv2 \<Rightarrow> gst_lv2" where
  "connect_control_out oclass inst i lv2 =
     (if i < num_control_out oclass
      then connect_control_out oclass inst (Suc i)
             (slv2_call (Slv2_instance_connect_port inst
                (index (control_out_ports oclass ! i)) (Control_out_slot i)) lv2)
      else lv2)"
  by pat_completeness auto
termination
  by (relation "measure (\<lambda>(oclass, inst, i, lv2). num_control_out oclass - i)") auto

text \<open>
  \<open>gst_lv2_setup\<close>. What \<open>slv2_plugin_instantiate\<close> returns for a sample rate is the
  parameter \<open>instantiate\<close> (\<open>None\<close> is \<open>NULL\<close>).
\<close>

definition gst_lv2_setup ::
  "(guint \<Rightarrow> slv2_instance option) \<Rightarrow> gst_lv2_class \<Rightarrow> gst_lv2 \<Rightarrow> guint \<Rightarrow> bool \<times> gst_lv2" where
  "gst_lv2_setup instantiate oclass lv2 sample_rate =
     (if \<not> (activated lv2 = False) then (False, lv2)
      else
        (let lv2 = slv2_call (Slv2_plugin_instantiate sample_rate) lv2;
             lv2 = lv2\<lparr>lv2_instance := instantiate sample_rate\<rparr>
         in case lv2_instance lv2 of
              None \<Rightarrow> (False, lv2)
            | Some inst \<Rightarrow>
                (True, connect_control_out oclass inst 0
                         (connect_control_in oclass inst 0 lv2))))"

definition gst_lv2_start :: "gst_lv2 \<Rightarrow> bool \<times> gst_lv2" where
  "gst_lv2_start lv2 =
     (if \<not> (activated lv2 = False) then (False, lv2)
      else case lv2_instance lv2 of
             None \<Rightarrow> (False, lv2)
           | Some inst \<Rightarrow>
               (True, (slv2_call (Slv2_instance_activate inst) lv2)\<lparr>activated := True\<rparr>))"

definition gst_lv2_stop :: "gst_lv2 \<Rightarrow> status \<times> gst_lv2" where
  "gst_lv2_stop lv2 =
     (if \<not> (activated lv2 = True) then (Critical, lv2)
      else case lv2_instance lv2 of
             None \<Rightarrow> (Critical, lv2)
           | Some inst \<Rightarrow>
               (Normal, (slv2_call (Slv2_instance_deactivate inst) lv2)\<lparr>activated := False\<rparr>))"

definition gst_lv2_cleanup :: "gst_lv2 \<Rightarrow> status \<times> gst_lv2" where
  "gst_lv2_cleanup lv2 =
     (if \<not> (activated lv2 = False) then (Critical, lv2)
      else case lv2_instance lv2 of
             None \<Rightarrow> (Critical, lv2)
           | Some inst \<Rightarrow>
               (Normal, (slv2_call (Slv2_instance_free inst) lv2)\<lparr>lv2_instance := None\<rparr>))"

subsection \<open>\<open>gst_lv2_process\<close>\<close>

text \<open>
  The inner loop over the ports of one group. The offset \<open>j * nframes\<close> is a product
  of two \<open>guint\<close>.
\<close>

function connect_group_ports ::
  "slv2_instance \<Rightarrow> gst_lv2_group \<Rightarrow> gst_signal_processor_group \<Rightarrow> guint \<Rightarrow> nat
     \<Rightarrow> gst_lv2 \<Rightarrow> gst_lv2" where
  "connect_group_ports inst lv2_group gst_group nframes j lv2 =
     (if j < length (g_ports lv2_group)
      then (let lv2_port = g_ports lv2_group ! j
            in connect_group_ports inst lv2_group gst_group nframes (Suc j)
                 (slv2_call (Slv2_instance_connect_port inst (index lv2_port)
                    (pointer_plus (buffer gst_group) (unat (word_of_nat j * nframes)))) lv2))
      else lv2)"
  by pat_completeness auto
termination
  by (relation "measure (\<lambda>(inst, lv2_group, gst_group, nframes, j, lv2).
        length (g_ports lv2_group) - j)") auto

function process_group_in :: "gst_lv2_class \<Rightarrow> slv2_instance \<Rightarrow> guint \<Rightarrow> nat \<Rightarrow> gst_lv2 \<Rightarrow> gst_lv2" where
  "process_group_in oclass inst nframes i lv2 =
     (if i < num_group_in oclass
      then process_group_in oclass inst nframes (Suc i)
             (connect_group_ports inst (in_groups oclass ! i) (group_in lv2 ! i) nframes 0 lv2)
      else lv2)"
  by pat_completeness auto
termination
  by (relation "measure (\<lambda>(oclass, inst, nframes, i, lv2). num_group_in oclass - i)") auto

function process_audio_in :: "gst_lv2_class \<Rightarrow> slv2_instance \<Rightarrow> nat \<Rightarrow> gst_lv2 \<Rightarrow> gst_lv2" where
  "process_audio_in oclass inst i lv2 =
     (if i < num_audio_in oclass
      then process_audio_in oclass inst (Suc i)
             (slv2_call (Slv2_instance_connect_port inst
                (index (audio_in_ports oclass ! i)) (audio_in lv2 ! i)) lv2)
      else lv2)"
  by pat_completeness auto
termination
  by (relation "measure (\<lambda>(oclass, inst, i, lv2). num_audio_in oclass - i)") auto

function process_group_out :: "gst_lv2_class \<Rightarrow> slv2_instance \<Rightarrow> guint \<Rightarrow> nat \<Rightarrow> gst_lv2 \<Rightarrow> gst_lv2" where
  "process_group_out oclass inst nframes i lv2 =
     (if i < num_group_out oclass
      then process_group_out oclass inst nframes (Suc i)
             (connect_group_ports inst (out_groups oclass ! i) (group_out lv2 ! i) nframes 0 lv2)
      else lv2)"
  by pat_completeness auto
termination
  by (relation "measure (\<lambda>(oclass, inst, nframes, i, lv2). num_group_out oclass - i)") auto

function process_audio_out :: "gst_lv2_class \<Rightarrow> slv2_instance \<Rightarrow> nat \<Rightarrow> gst_lv2 \<Rightarrow> gst_lv2" where
  "process_audio_out oclass inst i lv2 =
     (if i < num_audio_out oclass
      then process_audio_out oclass inst (Suc i)
             (slv2_call (Slv2_instance_connect_port inst
                (index (audio_out_ports oclass ! i)) (audio_out lv2 ! i)) lv2)
      else lv2)"
  by pat_completeness auto
termination
  by (relation "measure (\<lambda>(oclass, inst, i, lv2). num_audio_out oclass - i)") auto

text \<open>
  \<open>gst_lv2_process\<close> does not test \<open>lv2->instance\<close>; the SLV2 calls dereference it,
  so the result is \<open>None\<close> when it is \<open>NULL\<close>.
\<close>

definition gst_lv2_process :: "gst_lv2_class \<Rightarrow> gst_lv2 \<Rightarrow> guint \<Rightarrow> gst_lv2 option" where
  "gst_lv2_process oclass lv2 nframes =
     (case lv2_instance lv2 of
        None \<Rightarrow> None
      | Some inst \<Rightarrow>
          (let lv2 = process_group_in oclass inst nframes 0 lv2;
               lv2 = process_audio_in oclass inst 0 lv2;
               lv2 = process_group_out oclass inst nframes 0 lv2;
               lv2 = process_audio_out oclass inst 0 lv2
           in Some (slv2_call (Slv2_instance_run inst nframes) lv2)))"

subsection \<open>Discovery\<close>

text \<open>
  The type system and the element registry, as far as discovery touches them: the
  registered type names, each with the plugin stored as its \<open>slv2-plugin\<close> data
  (types that other code registered carry none), and the registered element factories
  (name and type, a type being identified by its name).
\<close>

record registry =
  types :: "(string \<times> slv2_plugin option) list"
  elements :: "(string \<times> string) list"

definition g_type_from_name :: "registry \<Rightarrow> string \<Rightarrow> bool" where
  \<comment> \<open>whether the result is a type (not 0)\<close>
  "g_type_from_name r name = (name \<in> set (map fst (types r)))"

definition g_strcanon :: "string \<Rightarrow> string \<Rightarrow> char \<Rightarrow> string" where
  "g_strcanon str valid_chars substitutor =
     map (\<lambda>c. if c \<in> set valid_chars then c else substitutor) str"

definition type_name_chars :: string where
  \<comment> \<open>\<open>G_CSET_A_2_Z G_CSET_a_2_z G_CSET_DIGITS "-+"\<close>\<close>
  "type_name_chars =
     ''ABCDEFGHIJKLMNOPQRSTUVWXYZ'' @ ''abcdefghijklmnopqrstuvwxyz'' @ ''0123456789'' @ ''-+''"

text \<open>
  The body of the loop of \<open>lv2_plugin_discover\<close> for one plugin.
  \<open>g_type_register_static\<close> adds the type under the new name and
  \<open>g_type_set_qdata\<close> attaches the plugin. Whether \<open>gst_element_register\<close>
  succeeds for a name is the parameter \<open>element_register_ok\<close>; when it does, the
  element factory is in the registry.
\<close>

definition discover_plugin :: "(string \<Rightarrow> bool) \<Rightarrow> slv2_plugin \<Rightarrow> registry \<Rightarrow> registry" where
  "discover_plugin element_register_ok lv2plugin r =
     (let type_name = g_strcanon (plugin_uri lv2plugin) type_name_chars CHR ''-'' in
      \<comment> \<open>if it's already registered, drop it\<close>
      if g_type_from_name r type_name then r
      else
        (let r = r\<lparr>types := types r @ [(type_name, Some lv2plugin)]\<rparr>
         in if \<not> element_register_ok type_name then r
            else r\<lparr>elements := elements r @ [(type_name, type_name)]\<rparr>))"

function discover_from ::
  "(string \<Rightarrow> bool) \<Rightarrow> slv2_plugin list \<Rightarrow> nat \<Rightarrow> registry \<Rightarrow> registry" where
  "discover_from element_register_ok plugins i r =
     (if i < length plugins
      then discover_from element_register_ok plugins (Suc i)
             (discover_plugin element_register_ok (plugins ! i) r)
      else r)"
  by pat_completeness auto
termination
  by (relation "measure (\<lambda>(ok, plugins, i, r). length plugins - i)") auto

definition lv2_plugin_discover ::
  "(string \<Rightarrow> bool) \<Rightarrow> slv2_plugin list \<Rightarrow> registry \<Rightarrow> bool \<times> registry" where
  "lv2_plugin_discover element_register_ok plugins r =
     (True, discover_from element_register_ok plugins 0 r)"

text \<open>
  The loops are unfolded one iteration at a time, where a proof asks for it.
\<close>

declare base_init_find_ports.simps [simp del]
declare add_in_group_templates.simps [simp del]
declare add_out_group_templates.simps [simp del]
declare add_audio_in_templates.simps [simp del]
declare add_audio_out_templates.simps [simp del]
declare connect_control_in.simps [simp del]
declare connect_control_out.simps [simp del]
declare connect_group_ports.simps [simp del]
declare process_group_in.simps [simp del]
declare process_audio_in.simps [simp del]
declare process_group_out.simps [simp del]
declare process_audio_out.simps [simp del]
declare discover_from.simps [simp del]
declare install_control_in.simps [simp del]
declare install_control_out.simps [simp del]

section \<open>Reference descriptions\<close>

text \<open>
  The bindings of one processing cycle as the design describes them: the member at
  position \<open>k\<close> of a group is bound \<open>k * frame_count\<close> samples into the group's
  buffer; the buckets follow each other as grouped inputs, ungrouped audio inputs,
  grouped outputs, ungrouped audio outputs.
\<close>

definition spec_group_bindings ::
  "slv2_instance \<Rightarrow> nat \<Rightarrow> gst_lv2_group \<Rightarrow> gst_signal_processor_group \<Rightarrow> slv2_call list" where
  "spec_group_bindings inst frame_count g b =
     map (\<lambda>k. Slv2_instance_connect_port inst (index (g_ports g ! k))
                (pointer_plus (buffer b) (k * frame_count)))
       [0..<length (g_ports g)]"

definition spec_process_bindings ::
  "gst_lv2_class \<Rightarrow> gst_lv2 \<Rightarrow> slv2_instance \<Rightarrow> nat \<Rightarrow> slv2_call list" where
  "spec_process_bindings oclass lv2 inst frame_count =
     concat (map (\<lambda>i. spec_group_bindings inst frame_count (in_groups oclass ! i) (group_in lv2 ! i))
               [0..<num_group_in oclass])
     @ map (\<lambda>i. Slv2_instance_connect_port inst (index (audio_in_ports oclass ! i)) (audio_in lv2 ! i))
         [0..<num_audio_in oclass]
     @ concat (map (\<lambda>i. spec_group_bindings inst frame_count (out_groups oclass ! i) (group_out lv2 ! i))
               [0..<num_group_out oclass])
     @ map (\<lambda>i. Slv2_instance_connect_port inst (index (audio_out_ports oclass ! i)) (audio_out lv2 ! i))
         [0..<num_audio_out oclass]"

text \<open>
  The group counts of the class are within its group arrays, and the number of samples
  of every group buffer (members times frames) is representable as a \<open>guint\<close>.
\<close>

definition group_buffers_fit :: "gst_lv2_class \<Rightarrow> guint \<Rightarrow> bool" where
  "group_buffers_fit oclass nframes =
     (num_group_in oclass \<le> length (in_groups oclass) \<and>
      num_group_out oclass \<le> length (out_groups oclass) \<and>
      list_all (\<lambda>g. length (g_ports g) * unat nframes < 2 ^ 32)
        (take (num_group_in oclass) (in_groups oclass)) \<and>
      list_all (\<lambda>g. length (g_ports g) * unat nframes < 2 ^ 32)
        (take (num_group_out oclass) (out_groups oclass)))"

text \<open>
  The kinds of port that the loop of \<open>gst_lv2_base_init\<close> tells apart. A port is an
  input when it is of the input class and an output otherwise.
\<close>

definition port_grouped :: "slv2_port \<Rightarrow> bool" where
  "port_grouped port = (port_in_group port \<noteq> [])"

definition unsupported_port :: "slv2_port \<Rightarrow> bool" where
  "unsupported_port port =
     (\<not> port_grouped port \<and> \<not> slv2_port_is_a port Audio_class \<and>
      \<not> slv2_port_is_a port Control_class)"

definition ungrouped_audio_input :: "slv2_port \<Rightarrow> bool" where
  "ungrouped_audio_input port =
     (\<not> port_grouped port \<and> slv2_port_is_a port Audio_class \<and>
      slv2_port_is_a port Input_class)"

definition ungrouped_audio_output :: "slv2_port \<Rightarrow> bool" where
  "ungrouped_audio_output port =
     (\<not> port_grouped port \<and> slv2_port_is_a port Audio_class \<and>
      \<not> slv2_port_is_a port Input_class)"

definition ungrouped_control_input :: "slv2_port \<Rightarrow> bool" where
  "ungrouped_control_input port =
     (\<not> port_grouped port \<and> \<not> slv2_port_is_a port Audio_class \<and>
      slv2_port_is_a port Control_class \<and> slv2_port_is_a port Input_class)"

definition ungrouped_control_output :: "slv2_port \<Rightarrow> bool" where
  "ungrouped_control_output port =
     (\<not> port_grouped port \<and> \<not> slv2_port_is_a port Audio_class \<and>
      slv2_port_is_a port Control_class \<and> \<not> slv2_port_is_a port Input_class)"

text \<open>
  The pad numbers of one direction (\<open>True\<close> for inputs): of its groups, of its
  ungrouped audio ports, and the counter they are drawn from.
\<close>

definition audio_ports_of :: "bool \<Rightarrow> gst_lv2_class \<Rightarrow> gst_lv2_port list" where
  "audio_ports_of is_input k = (if is_input then audio_in_ports k else audio_out_ports k)"

definition group_pads :: "bool \<Rightarrow> gst_lv2_class \<Rightarrow> nat list" where
  "group_pads is_input k = map g_pad (groups_of is_input k)"

definition audio_pads :: "bool \<Rightarrow> gst_lv2_class \<Rightarrow> nat list" where
  "audio_pads is_input k = map pad (audio_ports_of is_input k)"

definition pad_index :: "bool \<Rightarrow> base_init_vars \<Rightarrow> nat" where
  "pad_index is_input v = (if is_input then in_pad_index v else out_pad_index v)"

text \<open>
  Two lists of pad numbers drawn from one sequence \<open>0, 1, 2, \<dots>\<close>: each list
  increases, no number occurs twice, and together they hold exactly the numbers below
  their joint length.
\<close>

definition one_pad_sequence :: "nat list \<Rightarrow> nat list \<Rightarrow> bool" where
  "one_pad_sequence gp ap =
     (sorted_wrt (<) gp \<and> sorted_wrt (<) ap \<and> distinct (gp @ ap) \<and>
      set (gp @ ap) = {0..<length gp + length ap})"

text \<open>The class that the loop over the ports starts from.\<close>

definition cleared_class :: "gst_lv2_class \<Rightarrow> gst_lv2_class" where
  "cleared_class g_class =
     g_class\<lparr>num_group_in := 0, num_group_out := 0, num_audio_in := 0,
             num_audio_out := 0, num_control_in := 0, num_control_out := 0,
             in_groups := [], out_groups := [], audio_in_ports := [],
             audio_out_ports := [], control_in_ports := [],
             control_out_ports := []\<rparr>"

text \<open>
  The pad templates of a list of groups and of a list of ungrouped ports, each numbered
  from 0 by its position in the list, for a given direction.
\<close>

definition group_templates :: "pad_direction \<Rightarrow> gst_lv2_group list \<Rightarrow> pad_template list" where
  "group_templates dir groups =
     map (\<lambda>j. \<lparr>tmpl_name = g_symbol (groups ! j), tmpl_direction = dir, tmpl_index = j,
               tmpl_channels = length (g_ports (groups ! j))\<rparr>)
       [0..<length groups]"

definition port_templates ::
  "pad_direction \<Rightarrow> slv2_plugin \<Rightarrow> gst_lv2_port list \<Rightarrow> pad_template list" where
  "port_templates dir lv2plugin descs =
     map (\<lambda>j. \<lparr>tmpl_name = Some (port_symbol (plugin_ports lv2plugin ! index (descs ! j))),
               tmpl_direction = dir, tmpl_index = j, tmpl_channels = 1\<rparr>)
       [0..<length descs]"

text \<open>The ports found for a plugin: the class after the loop over the ports.\<close>

definition found_ports :: "slv2_plugin \<Rightarrow> gst_lv2_class \<Rightarrow> gst_lv2_class" where
  "found_ports lv2plugin g_class =
     klass (base_init_find_ports lv2plugin 0
       \<lparr>klass = cleared_class g_class, in_pad_index = 0, out_pad_index = 0\<rparr>)"

text \<open>The type name that \<open>lv2_plugin_discover\<close> constructs from the plugin URI.\<close>

definition plugin_type_name :: "slv2_plugin \<Rightarrow> string" where
  "plugin_type_name lv2plugin = g_strcanon (plugin_uri lv2plugin) type_name_chars CHR ''-''"

text \<open>The registry after the scan has handled the first \<open>n\<close> plugins of the list.\<close>

definition scanned ::
  "(string \<Rightarrow> bool) \<Rightarrow> slv2_plugin list \<Rightarrow> registry \<Rightarrow> nat \<Rightarrow> registry" where
  "scanned element_register_ok plugins r n =
     discover_from element_register_ok (take n plugins) 0 r"

text \<open>
  The classification of a plugin, read off its ports in declaration order. For a
  direction \<open>d\<close> (\<open>True\<close> for inputs) and a port index \<open>j\<close>: the port is a member of
  the group \<open>u\<close> of that direction; it is the first member of its group (it opens the
  group); it is an ungrouped audio port; it is an ungrouped control port. Both an opened
  group and an ungrouped audio port take a pad; \<open>pads_before\<close> counts the pads taken by
  the ports declared before \<open>j\<close>.
\<close>

definition port_group_uri :: "slv2_port \<Rightarrow> string" where
  "port_group_uri port = port_in_group port ! 0"

definition group_member :: "slv2_plugin \<Rightarrow> bool \<Rightarrow> string \<Rightarrow> nat \<Rightarrow> bool" where
  "group_member p d u j =
     (port_grouped (plugin_ports p ! j) \<and>
      slv2_port_is_a (plugin_ports p ! j) Input_class = d \<and>
      port_group_uri (plugin_ports p ! j) = u)"

definition opens_group :: "slv2_plugin \<Rightarrow> bool \<Rightarrow> nat \<Rightarrow> bool" where
  "opens_group p d j =
     (group_member p d (port_group_uri (plugin_ports p ! j)) j \<and>
      filter (group_member p d (port_group_uri (plugin_ports p ! j))) [0..<j] = [])"

definition audio_pad_port :: "slv2_plugin \<Rightarrow> bool \<Rightarrow> nat \<Rightarrow> bool" where
  "audio_pad_port p d j =
     (\<not> port_grouped (plugin_ports p ! j) \<and>
      slv2_port_is_a (plugin_ports p ! j) Audio_class \<and>
      slv2_port_is_a (plugin_ports p ! j) Input_class = d)"

definition control_param_port :: "slv2_plugin \<Rightarrow> bool \<Rightarrow> nat \<Rightarrow> bool" where
  "control_param_port p d j =
     (\<not> port_grouped (plugin_ports p ! j) \<and>
      \<not> slv2_port_is_a (plugin_ports p ! j) Audio_class \<and>
      slv2_port_is_a (plugin_ports p ! j) Control_class \<and>
      slv2_port_is_a (plugin_ports p ! j) Input_class = d)"

definition opens_pad :: "slv2_plugin \<Rightarrow> bool \<Rightarrow> nat \<Rightarrow> bool" where
  "opens_pad p d j = (opens_group p d j \<or> audio_pad_port p d j)"

definition pads_before :: "slv2_plugin \<Rightarrow> bool \<Rightarrow> nat \<Rightarrow> nat" where
  "pads_before p d j = length (filter (opens_pad p d) [0..<j])"

definition group_symbol :: "slv2_plugin \<Rightarrow> string \<Rightarrow> string option" where
  "group_symbol p u =
     (if length (slv2_plugin_get_value_for_subject p u) > 0
      then Some (slv2_plugin_get_value_for_subject p u ! 0) else None)"

text \<open>
  What the first \<open>m\<close> ports put into the arrays of direction \<open>d\<close>: one group per
  opening port, in the order of the opening ports, holding its members in the order of
  their indices; the ungrouped audio ports, each with the number of pads taken before
  it; the ungrouped control ports.
\<close>

definition expected_group :: "slv2_plugin \<Rightarrow> bool \<Rightarrow> nat \<Rightarrow> nat \<Rightarrow> gst_lv2_group" where
  "expected_group p d m j =
     \<lparr>g_uri = port_group_uri (plugin_ports p ! j),
      g_pad = pads_before p d j,
      g_symbol = group_symbol p (port_group_uri (plugin_ports p ! j)),
      g_ports = map (\<lambda>i. \<lparr>index = i, pad = 0\<rparr>)
                  (filter (group_member p d (port_group_uri (plugin_ports p ! j))) [0..<m])\<rparr>"

definition expected_groups :: "slv2_plugin \<Rightarrow> bool \<Rightarrow> nat \<Rightarrow> gst_lv2_group list" where
  "expected_groups p d m = map (expected_group p d m) (filter (opens_group p d) [0..<m])"

definition expected_audio :: "slv2_plugin \<Rightarrow> bool \<Rightarrow> nat \<Rightarrow> gst_lv2_port list" where
  "expected_audio p d m =
     map (\<lambda>j. \<lparr>index = j, pad = pads_before p d j\<rparr>) (filter (audio_pad_port p d) [0..<m])"

definition expected_control :: "slv2_plugin \<Rightarrow> bool \<Rightarrow> nat \<Rightarrow> gst_lv2_port list" where
  "expected_control p d m =
     map (\<lambda>j. \<lparr>index = j, pad = 0\<rparr>) (filter (control_param_port p d) [0..<m])"

definition control_ports_of :: "bool \<Rightarrow> gst_lv2_class \<Rightarrow> gst_lv2_port list" where
  "control_ports_of is_input k = (if is_input then control_in_ports k else control_out_ports k)"

text \<open>The port indices that a class holds in any of its arrays.\<close>

definition classified_indices :: "gst_lv2_class \<Rightarrow> nat list" where
  "classified_indices k =
     concat (map (\<lambda>g. map index (g_ports g)) (in_groups k @ out_groups k))
     @ map index (audio_in_ports k @ audio_out_ports k @ control_in_ports k
         @ control_out_ports k)"

text \<open>
  The value of a \<open>gfloat\<close> truncated towards zero, and whether it fits a \<open>gint\<close>.
\<close>

definition gfloat_truncate :: "gfloat \<Rightarrow> int" where
  "gfloat_truncate x = (if 0 \<le> x then \<lfloor>x\<rfloor> else \<lceil>x\<rceil>)"

definition fits_gint :: "gfloat \<Rightarrow> bool" where
  "fits_gint x = (- 2147483648 \<le> gfloat_truncate x \<and> gfloat_truncate x \<le> 2147483647)"

section \<open>Sample data\<close>

definition empty_class :: gst_lv2_class where
  "empty_class =
     \<lparr>num_group_in = 0, num_group_out = 0, num_audio_in = 0, num_audio_out = 0,
      num_control_in = 0, num_control_out = 0, in_groups = [], out_groups = [],
      audio_in_ports = [], audio_out_ports = [], control_in_ports = [],
      control_out_ports = [], pad_templates = [], klass_tags = [],
      can_process_in_place = False, plugin = None\<rparr>"

text \<open>
  A plugin with a stereo input group whose members are separated by an ungrouped audio
  input, one audio output, a control input whose default lies above its range, a port
  of an unknown kind, a toggled control input and a control output.
\<close>

definition example_ports :: "slv2_port list" where
  "example_ports =
     [\<lparr>port_classes = [Input_class, Audio_class], port_in_group = [''urn:in''],
       port_symbol = ''in_l'', port_properties = [],
       port_default = None, port_minimum = None, port_maximum = None\<rparr>,
      \<lparr>port_classes = [Input_class, Audio_class], port_in_group = [],
       port_symbol = ''side'', port_properties = [],
       port_default = None, port_minimum = None, port_maximum = None\<rparr>,
      \<lparr>port_classes = [Input_class, Audio_class], port_in_group = [''urn:in''],
       port_symbol = ''in_r'', port_properties = [],
       port_default = None, port_minimum = None, port_maximum = None\<rparr>,
      \<lparr>port_classes = [Output_class, Audio_class], port_in_group = [],
       port_symbol = ''out'', port_properties = [],
       port_default = None, port_minimum = None, port_maximum = None\<rparr>,
      \<lparr>port_classes = [Input_class, Control_class], port_in_group = [],
       port_symbol = ''gain'', port_properties = [],
       port_default = Some (3 / 2), port_minimum = Some 0, port_maximum = Some 1\<rparr>,
      \<lparr>port_classes = [Input_class, Other_class ''Event''], port_in_group = [],
       port_symbol = ''events'', port_properties = [],
       port_default = None, port_minimum = None, port_maximum = None\<rparr>,
      \<lparr>port_classes = [Input_class, Control_class], port_in_group = [],
       port_symbol = ''bypass'', port_properties = [Toggled_prop],
       port_default = Some 2, port_minimum = Some 0, port_maximum = Some 1\<rparr>,
      \<lparr>port_classes = [Output_class, Control_class], port_in_group = [],
       port_symbol = ''level'', port_properties = [],
       port_default = None, port_minimum = None, port_maximum = None\<rparr>]"

definition example_plugin :: slv2_plugin where
  "example_plugin =
     \<lparr>plugin_uri = ''http://example.org/lv2/amp#1'', plugin_ports = example_ports,
      plugin_subject_symbols = [(''urn:in'', [''in''])], plugin_in_place_broken = False\<rparr>"

definition example_found :: base_init_vars where
  "example_found =
     \<lparr>klass = empty_class
        \<lparr>in_groups := [\<lparr>g_uri = ''urn:in'', g_pad = 0, g_symbol = Some ''in'',
                         g_ports = [\<lparr>index = 0, pad = 0\<rparr>, \<lparr>index = 2, pad = 0\<rparr>]\<rparr>],
         audio_in_ports := [\<lparr>index = 1, pad = 1\<rparr>],
         audio_out_ports := [\<lparr>index = 3, pad = 0\<rparr>],
         control_in_ports := [\<lparr>index = 4, pad = 0\<rparr>, \<lparr>index = 6, pad = 0\<rparr>],
         control_out_ports := [\<lparr>index = 7, pad = 0\<rparr>]\<rparr>,
      in_pad_index = 2, out_pad_index = 1\<rparr>"

definition example_templates :: "pad_template list" where
  "example_templates =
     [\<lparr>tmpl_name = Some ''in'', tmpl_direction = GST_PAD_SINK, tmpl_index = 0,
       tmpl_channels = 2\<rparr>,
      \<lparr>tmpl_name = Some ''side'', tmpl_direction = GST_PAD_SINK, tmpl_index = 0,
       tmpl_channels = 1\<rparr>,
      \<lparr>tmpl_name = Some ''out'', tmpl_direction = GST_PAD_SINK, tmpl_index = 0,
       tmpl_channels = 1\<rparr>]"

definition example_class :: gst_lv2_class where
  "example_class =
     (klass example_found)
       \<lparr>num_group_in := 1, num_group_out := 0, num_audio_in := 1, num_audio_out := 1,
        num_control_in := 2, num_control_out := 1,
        pad_templates := example_templates,
        klass_tags := ''Filter/Effect/Audio/LV2'', can_process_in_place := True,
        plugin := Some example_plugin\<rparr>"

text \<open>An element of that class, as the base class allocates it, before \<open>setup\<close>.\<close>

definition example_lv2 :: gst_lv2 where
  "example_lv2 =
     \<lparr>control_in = [1 / 2, 1], control_out = [1 / 4],
      group_in = [\<lparr>buffer = Buffer 0 0\<rparr>], group_out = [],
      audio_in = [Buffer 1 0], audio_out = [Buffer 2 0],
      lv2_instance = None, activated = False, calls = []\<rparr>"

definition instantiate_as :: "slv2_instance \<Rightarrow> guint \<Rightarrow> slv2_instance option" where
  "instantiate_as inst sample_rate = Some inst"

text \<open>
  A stereo plugin: two audio inputs forming the group \<open>in\<close>, two audio outputs
  forming the group \<open>out\<close>, the control input \<open>gain\<close>, and an ungrouped audio
  output \<open>monitor\<close>.
\<close>

definition stereo_plugin :: slv2_plugin where
  "stereo_plugin =
     \<lparr>plugin_uri = ''http://example.org/lv2/stereo'',
      plugin_ports =
        [\<lparr>port_classes = [Input_class, Audio_class], port_in_group = [''urn:in''],
          port_symbol = ''in_l'', port_properties = [],
          port_default = None, port_minimum = None, port_maximum = None\<rparr>,
         \<lparr>port_classes = [Input_class, Audio_class], port_in_group = [''urn:in''],
          port_symbol = ''in_r'', port_properties = [],
          port_default = None, port_minimum = None, port_maximum = None\<rparr>,
         \<lparr>port_classes = [Output_class, Audio_class], port_in_group = [''urn:out''],
          port_symbol = ''out_l'', port_properties = [],
          port_default = None, port_minimum = None, port_maximum = None\<rparr>,
         \<lparr>port_classes = [Output_class, Audio_class], port_in_group = [''urn:out''],
          port_symbol = ''out_r'', port_properties = [],
          port_default = None, port_minimum = None, port_maximum = None\<rparr>,
         \<lparr>port_classes = [Input_class, Control_class], port_in_group = [],
          port_symbol = ''gain'', port_properties = [],
          port_default = Some 1, port_minimum = Some 0, port_maximum = Some 2\<rparr>,
         \<lparr>port_classes = [Output_class, Audio_class], port_in_group = [],
          port_symbol = ''monitor'', port_properties = [],
          port_default = None, port_minimum = None, port_maximum = None\<rparr>],
      plugin_subject_symbols = [(''urn:in'', [''in'']), (''urn:out'', [''out''])],
      plugin_in_place_broken = False\<rparr>"

definition stereo_found :: gst_lv2_class where
  "stereo_found =
     empty_class
       \<lparr>in_groups := [\<lparr>g_uri = ''urn:in'', g_pad = 0, g_symbol = Some ''in'',
                        g_ports = [\<lparr>index = 0, pad = 0\<rparr>, \<lparr>index = 1, pad = 0\<rparr>]\<rparr>],
        out_groups := [\<lparr>g_uri = ''urn:out'', g_pad = 0, g_symbol = Some ''out'',
                         g_ports = [\<lparr>index = 2, pad = 0\<rparr>, \<lparr>index = 3, pad = 0\<rparr>]\<rparr>],
        audio_out_ports := [\<lparr>index = 5, pad = 1\<rparr>],
        control_in_ports := [\<lparr>index = 4, pad = 0\<rparr>]\<rparr>"

text \<open>
  A second plugin whose URI differs from the sample plugin's only in a character
  outside the type name characters, and a registry in which other code has registered
  a type.
\<close>

definition clash_plugin :: slv2_plugin where
  "clash_plugin = example_plugin\<lparr>plugin_uri := ''http://example.org/lv2/amp/1''\<rparr>"

definition base_registry :: registry where
  "base_registry = \<lparr>types = [(''GstElement'', None)], elements = []\<rparr>"

definition register_always :: "string \<Rightarrow> bool" where
  "register_always name = True"

text \<open>
  A plugin whose ungrouped audio input is declared before the two members of its input
  group.
\<close>

definition side_first_plugin :: slv2_plugin where
  "side_first_plugin =
     \<lparr>plugin_uri = ''http://example.org/lv2/side-first'',
      plugin_ports =
        [\<lparr>port_classes = [Input_class, Audio_class], port_in_group = [],
          port_symbol = ''side'', port_properties = [],
          port_default = None, port_minimum = None, port_maximum = None\<rparr>,
         \<lparr>port_classes = [Input_class, Audio_class], port_in_group = [''urn:in''],
          port_symbol = ''in_l'', port_properties = [],
          port_default = None, port_minimum = None, port_maximum = None\<rparr>,
         \<lparr>port_classes = [Input_class, Audio_class], port_in_group = [''urn:in''],
          port_symbol = ''in_r'', port_properties = [],
          port_default = None, port_minimum = None, port_maximum = None\<rparr>],
      plugin_subject_symbols = [(''urn:in'', [''in''])], plugin_in_place_broken = False\<rparr>"

text \<open>
  The plugin of the specification's scenario: two audio inputs forming the group \<open>in\<close>,
  two audio outputs forming the group \<open>out\<close>, and the control input \<open>gain\<close> with
  range \<open>[0, 2]\<close> and default 1.
\<close>

definition scenario_plugin :: slv2_plugin where
  "scenario_plugin =
     \<lparr>plugin_uri = ''http://example.org/lv2/scenario'',
      plugin_ports =
        [\<lparr>port_classes = [Input_class, Audio_class], port_in_group = [''urn:in''],
          port_symbol = ''in_l'', port_properties = [],
          port_default = None, port_minimum = None, port_maximum = None\<rparr>,
         \<lparr>port_classes = [Input_class, Audio_class], port_in_group = [''urn:in''],
          port_symbol = ''in_r'', port_properties = [],
          port_default = None, port_minimum = None, port_maximum = None\<rparr>,
         \<lparr>port_classes = [Output_class, Audio_class], port_in_group = [''urn:out''],
          port_symbol = ''out_l'', port_properties = [],
          port_default = None, port_minimum = None, port_maximum = None\<rparr>,
         \<lparr>port_classes = [Output_class, Audio_class], port_in_group = [''urn:out''],
          port_symbol = ''out_r'', port_properties = [],
          port_default = None, port_minimum = None, port_maximum = None\<rparr>,
         \<lparr>port_classes = [Input_class, Control_class], port_in_group = [],
          port_symbol = ''gain'', port_properties = [],
          port_default = Some 1, port_minimum = Some 0, port_maximum = Some 2\<rparr>],
      plugin_subject_symbols = [(''urn:in'', [''in'']), (''urn:out'', [''out''])],
      plugin_in_place_broken = False\<rparr>"

text \<open>
  A class whose plugin has one control input with the integer annotation, declared
  range \<open>[0, 1]\<close> and declared default \<open>3 / 2\<close>.
\<close>

definition steps_plugin :: slv2_plugin where
  "steps_plugin =
     \<lparr>plugin_uri = ''http://example.org/lv2/steps'',
      plugin_ports =
        [\<lparr>port_classes = [Input_class, Control_class], port_in_group = [],
          port_symbol = ''steps'', port_properties = [Integer_prop],
          port_default = Some (3 / 2), port_minimum = Some 0, port_maximum = Some 1\<rparr>],
      plugin_subject_symbols = [], plugin_in_place_broken = False\<rparr>"

definition steps_class :: gst_lv2_class where
  "steps_class = empty_class\<lparr>plugin := Some steps_plugin\<rparr>"

section \<open>Lemmas about the loops\<close>

lemma unat_dec: "1 \<le> unat (w::guint) \<Longrightarrow> unat (w - 1) = unat w - 1"
  by (metis One_nat_def unat_minus_one unat_0 not_one_le_zero)

lemma guint_offset:
  assumes "k * unat (nframes::guint) < 2 ^ 32"
  shows "unat (word_of_nat k * nframes) = k * unat nframes"
proof -
  have "unat (word_of_nat k * nframes) = (k mod 2 ^ 32) * unat nframes mod 2 ^ 32"
    by (simp add: unat_word_ariths unat_of_nat)
  also have "\<dots> = k * unat nframes mod 2 ^ 32"
    by (simp add: mod_mult_left_eq)
  finally show ?thesis using assms by simp
qed

lemma connect_control_in_calls:
  "connect_control_in k h i s =
     s\<lparr>calls := calls s @
        map (\<lambda>j. Slv2_instance_connect_port h (index (control_in_ports k ! j)) (Control_in_slot j))
          [i..<num_control_in k]\<rparr>"
proof (induction k h i s rule: connect_control_in.induct)
  case (1 oclass inst i lv2)
  show ?case
  proof (cases "i < num_control_in oclass")
    case True
    then show ?thesis
      using "1.IH" [OF True]
      by (subst connect_control_in.simps) (simp add: slv2_call_def upt_conv_Cons)
  next
    case False
    then show ?thesis by (subst connect_control_in.simps) simp
  qed
qed

lemma connect_control_out_calls:
  "connect_control_out k h i s =
     s\<lparr>calls := calls s @
        map (\<lambda>j. Slv2_instance_connect_port h (index (control_out_ports k ! j)) (Control_out_slot j))
          [i..<num_control_out k]\<rparr>"
proof (induction k h i s rule: connect_control_out.induct)
  case (1 oclass inst i lv2)
  show ?case
  proof (cases "i < num_control_out oclass")
    case True
    then show ?thesis
      using "1.IH" [OF True]
      by (subst connect_control_out.simps) (simp add: slv2_call_def upt_conv_Cons)
  next
    case False
    then show ?thesis by (subst connect_control_out.simps) simp
  qed
qed

lemma connect_group_ports_calls:
  "connect_group_ports h g b F j s =
     s\<lparr>calls := calls s @
        map (\<lambda>k. Slv2_instance_connect_port h (index (g_ports g ! k))
                   (pointer_plus (buffer b) (unat (word_of_nat k * F))))
          [j..<length (g_ports g)]\<rparr>"
proof (induction h g b F j s rule: connect_group_ports.induct)
  case (1 inst lv2_group gst_group nframes j lv2)
  show ?case
  proof (cases "j < length (g_ports lv2_group)")
    case True
    then show ?thesis
      using "1.IH" [OF True refl]
      by (subst connect_group_ports.simps) (simp add: slv2_call_def upt_conv_Cons)
  next
    case False
    then show ?thesis by (subst connect_group_ports.simps) simp
  qed
qed

lemma connect_group_ports_spec:
  assumes "length (g_ports g) * unat F < 2 ^ 32"
  shows "connect_group_ports h g b F 0 s =
           s\<lparr>calls := calls s @ spec_group_bindings h (unat F) g b\<rparr>"
proof -
  have "k * unat F < 2 ^ 32" if "k < length (g_ports g)" for k
  proof -
    have "k * unat F \<le> length (g_ports g) * unat F"
      using that by (intro mult_le_mono1) simp
    with assms show ?thesis by (rule le_less_trans[rotated])
  qed
  then show ?thesis
    by (simp add: connect_group_ports_calls spec_group_bindings_def guint_offset)
qed

lemma process_group_in_calls:
  assumes "group_buffers_fit k F"
  shows "process_group_in k h F i s =
     s\<lparr>calls := calls s @
        concat (map (\<lambda>i. spec_group_bindings h (unat F) (in_groups k ! i) (group_in s ! i))
                  [i..<num_group_in k])\<rparr>"
  using assms
proof (induction k h F i s rule: process_group_in.induct)
  case (1 oclass inst nframes i lv2)
  show ?case
  proof (cases "i < num_group_in oclass")
    case True
    have "in_groups oclass ! i \<in> set (take (num_group_in oclass) (in_groups oclass))"
      using True "1.prems" by (auto simp: group_buffers_fit_def in_set_conv_nth)
    then have fit: "length (g_ports (in_groups oclass ! i)) * unat nframes < 2 ^ 32"
      using "1.prems" by (auto simp: group_buffers_fit_def list_all_iff)
    show ?thesis
      using True "1.IH" [OF True "1.prems"]
      by (subst process_group_in.simps)
        (simp add: connect_group_ports_spec [OF fit] upt_conv_Cons)
  next
    case False
    then show ?thesis by (subst process_group_in.simps) simp
  qed
qed

lemma process_group_out_calls:
  assumes "group_buffers_fit k F"
  shows "process_group_out k h F i s =
     s\<lparr>calls := calls s @
        concat (map (\<lambda>i. spec_group_bindings h (unat F) (out_groups k ! i) (group_out s ! i))
                  [i..<num_group_out k])\<rparr>"
  using assms
proof (induction k h F i s rule: process_group_out.induct)
  case (1 oclass inst nframes i lv2)
  show ?case
  proof (cases "i < num_group_out oclass")
    case True
    have "out_groups oclass ! i \<in> set (take (num_group_out oclass) (out_groups oclass))"
      using True "1.prems" by (auto simp: group_buffers_fit_def in_set_conv_nth)
    then have fit: "length (g_ports (out_groups oclass ! i)) * unat nframes < 2 ^ 32"
      using "1.prems" by (auto simp: group_buffers_fit_def list_all_iff)
    show ?thesis
      using True "1.IH" [OF True "1.prems"]
      by (subst process_group_out.simps)
        (simp add: connect_group_ports_spec [OF fit] upt_conv_Cons)
  next
    case False
    then show ?thesis by (subst process_group_out.simps) simp
  qed
qed

lemma process_audio_in_calls:
  "process_audio_in k h i s =
     s\<lparr>calls := calls s @
        map (\<lambda>i. Slv2_instance_connect_port h (index (audio_in_ports k ! i)) (audio_in s ! i))
          [i..<num_audio_in k]\<rparr>"
proof (induction k h i s rule: process_audio_in.induct)
  case (1 oclass inst i lv2)
  show ?case
  proof (cases "i < num_audio_in oclass")
    case True
    then show ?thesis
      using "1.IH" [OF True]
      by (subst process_audio_in.simps) (simp add: slv2_call_def upt_conv_Cons)
  next
    case False
    then show ?thesis by (subst process_audio_in.simps) simp
  qed
qed

lemma process_audio_out_calls:
  "process_audio_out k h i s =
     s\<lparr>calls := calls s @
        map (\<lambda>i. Slv2_instance_connect_port h (index (audio_out_ports k ! i)) (audio_out s ! i))
          [i..<num_audio_out k]\<rparr>"
proof (induction k h i s rule: process_audio_out.induct)
  case (1 oclass inst i lv2)
  show ?case
  proof (cases "i < num_audio_out oclass")
    case True
    then show ?thesis
      using "1.IH" [OF True]
      by (subst process_audio_out.simps) (simp add: slv2_call_def upt_conv_Cons)
  next
    case False
    then show ?thesis by (subst process_audio_out.simps) simp
  qed
qed

lemma example_class_counts:
  "num_group_in example_class = 1" "num_group_out example_class = 0"
  "num_audio_in example_class = 1" "num_audio_out example_class = 1"
  "num_control_in example_class = 2" "num_control_out example_class = 1"
  by (simp_all add: example_class_def)

lemma example_class_arrays:
  "in_groups example_class =
     [\<lparr>g_uri = ''urn:in'', g_pad = 0, g_symbol = Some ''in'',
       g_ports = [\<lparr>index = 0, pad = 0\<rparr>, \<lparr>index = 2, pad = 0\<rparr>]\<rparr>]"
  "out_groups example_class = []"
  "audio_in_ports example_class = [\<lparr>index = 1, pad = 1\<rparr>]"
  "audio_out_ports example_class = [\<lparr>index = 3, pad = 0\<rparr>]"
  "control_in_ports example_class = [\<lparr>index = 4, pad = 0\<rparr>, \<lparr>index = 6, pad = 0\<rparr>]"
  "control_out_ports example_class = [\<lparr>index = 7, pad = 0\<rparr>]"
  by (simp_all add: example_class_def example_found_def empty_class_def)

section \<open>Properties of the instance functions\<close>

text \<open>
  The other life cycle functions: \<open>start\<close> needs an instance and no activation;
  \<open>stop\<close> undoes \<open>start\<close>; \<open>cleanup\<close> after a successful \<open>setup\<close> leaves no
  instance.
\<close>

lemma start_needs_setup:
  "lv2_instance lv2 = None \<Longrightarrow> gst_lv2_start lv2 = (False, lv2)"
  by (simp add: gst_lv2_start_def)

lemma stop_after_start:
  assumes "gst_lv2_start lv2 = (True, lv2')"
  shows "fst (gst_lv2_stop lv2') = Normal \<and> activated (snd (gst_lv2_stop lv2')) = False \<and>
         lv2_instance (snd (gst_lv2_stop lv2')) = lv2_instance lv2"
  using assms
  by (auto simp: gst_lv2_start_def gst_lv2_stop_def slv2_call_def split: if_splits option.splits)

lemma cleanup_while_activated:
  "activated lv2 \<Longrightarrow> gst_lv2_cleanup lv2 = (Critical, lv2)"
  by (simp add: gst_lv2_cleanup_def)

text \<open>
  \<open>gst_lv2_setup\<close> is guarded by the activation flag alone. On an activated element
  it fails, calls nothing and leaves the element as it is. On an element that is not
  activated it calls \<open>slv2_plugin_instantiate\<close> and stores the result, whether or not
  an instance was configured before.
\<close>

lemma setup_guarded_by_activation_only:
  "(activated lv2 \<longrightarrow> gst_lv2_setup instantiate oclass lv2 sample_rate = (False, lv2)) \<and>
   (\<not> activated lv2 \<longrightarrow>
      lv2_instance (snd (gst_lv2_setup instantiate oclass lv2 sample_rate))
        = instantiate sample_rate \<and>
      take (Suc (length (calls lv2)))
          (calls (snd (gst_lv2_setup instantiate oclass lv2 sample_rate)))
        = calls lv2 @ [Slv2_plugin_instantiate sample_rate])"
  by (simp add: gst_lv2_setup_def connect_control_in_calls connect_control_out_calls
      slv2_call_def Let_def split: option.split)

text \<open>
  C1 requires a second \<open>setup\<close> on a configured element to fail without a new
  instantiation. The code does not: \<open>gst_lv2_setup\<close> tests the activation flag alone
  and never looks at \<open>lv2->instance\<close>. Here the element is set up with instance 3 and
  not activated; the second call returns \<open>TRUE\<close>, calls \<open>slv2_plugin_instantiate\<close>
  again and replaces the stored instance by 7. The calls made show two instantiations
  and no \<open>slv2_instance_free\<close> of the first instance.
\<close>

theorem second_setup_instantiates_again:
  "fst (gst_lv2_setup (instantiate_as 3) example_class example_lv2 44100) = True \<and>
   lv2_instance (snd (gst_lv2_setup (instantiate_as 3) example_class example_lv2 44100))
     = Some 3 \<and>
   activated (snd (gst_lv2_setup (instantiate_as 3) example_class example_lv2 44100))
     = False \<and>
   fst (gst_lv2_setup (instantiate_as 7) example_class
          (snd (gst_lv2_setup (instantiate_as 3) example_class example_lv2 44100)) 44100)
     = True \<and>
   lv2_instance (snd (gst_lv2_setup (instantiate_as 7) example_class
          (snd (gst_lv2_setup (instantiate_as 3) example_class example_lv2 44100)) 44100))
     = Some 7 \<and>
   calls (snd (gst_lv2_setup (instantiate_as 7) example_class
          (snd (gst_lv2_setup (instantiate_as 3) example_class example_lv2 44100)) 44100))
     = [Slv2_plugin_instantiate 44100,
        Slv2_instance_connect_port 3 4 (Control_in_slot 0),
        Slv2_instance_connect_port 3 6 (Control_in_slot 1),
        Slv2_instance_connect_port 3 7 (Control_out_slot 0),
        Slv2_plugin_instantiate 44100,
        Slv2_instance_connect_port 7 4 (Control_in_slot 0),
        Slv2_instance_connect_port 7 6 (Control_in_slot 1),
        Slv2_instance_connect_port 7 7 (Control_out_slot 0)]"
  by (simp add: gst_lv2_setup_def connect_control_in_calls connect_control_out_calls
      slv2_call_def Let_def instantiate_as_def example_lv2_def example_class_counts
      example_class_arrays upt_rec)

text \<open>
  C5. On an element with an instance, \<open>gst_lv2_process\<close> returns, and what it has
  called is: the bindings of the grouped inputs, of the ungrouped audio inputs, of the
  grouped outputs and of the ungrouped audio outputs, in this order, the member at
  position \<open>k\<close> of a group bound \<open>k * nframes\<close> samples into the group's buffer;
  then one \<open>slv2_instance_run\<close> for \<open>nframes\<close> frames. The offset is computed in
  \<open>guint\<close>, so the statement is for group buffers whose sample count fits one.
\<close>

theorem process_rebinds_in_bucket_order:
  assumes "lv2_instance lv2 = Some inst" and "group_buffers_fit oclass nframes"
  shows "gst_lv2_process oclass lv2 nframes =
           Some (lv2\<lparr>calls := calls lv2
                   @ spec_process_bindings oclass lv2 inst (unat nframes)
                   @ [Slv2_instance_run inst nframes]\<rparr>)"
  using assms(1)
  by (simp add: gst_lv2_process_def process_group_in_calls [OF assms(2)]
      process_group_out_calls [OF assms(2)] process_audio_in_calls process_audio_out_calls
      spec_process_bindings_def slv2_call_def)

theorem process_rebinds_in_bucket_order_witness:
  "gst_lv2_process example_class (example_lv2\<lparr>lv2_instance := Some 3, activated := True\<rparr>) 256 =
     Some (example_lv2\<lparr>lv2_instance := Some 3, activated := True,
        calls := [Slv2_instance_connect_port 3 0 (Buffer 0 0),
                  Slv2_instance_connect_port 3 2 (Buffer 0 256),
                  Slv2_instance_connect_port 3 1 (Buffer 1 0),
                  Slv2_instance_connect_port 3 3 (Buffer 2 0),
                  Slv2_instance_run 3 256]\<rparr>)"
proof -
  have fit: "group_buffers_fit example_class 256"
    by (simp add: group_buffers_fit_def example_class_counts example_class_arrays)
  have inst: "lv2_instance (example_lv2\<lparr>lv2_instance := Some 3, activated := True\<rparr>) = Some 3"
    by simp
  show ?thesis
    using process_rebinds_in_bucket_order [OF inst fit]
    by (simp add: spec_process_bindings_def spec_group_bindings_def example_class_counts
        example_class_arrays example_lv2_def upt_rec)
qed

section \<open>Properties of the parameter surface\<close>

text \<open>
  The property ids that \<open>gst_lv2_class_init\<close> installs are \<open>1, 2, \<dots>\<close>: first the
  control inputs, then the control outputs.
\<close>

lemma install_control_in_ids:
  "map fst (snd (install_control_in k i acc)) =
     map fst (snd acc) @ map Suc [i..<num_control_in k]"
proof (induction k i acc rule: install_control_in.induct)
  case (1 k i acc)
  show ?case
  proof (cases "i < num_control_in k")
    case True
    obtain ws p where sp:
      "gst_lv2_class_get_param_spec k (index (control_in_ports k ! i)) = (ws, p)"
      by (cases "gst_lv2_class_get_param_spec k (index (control_in_ports k ! i))")
    show ?thesis
      using True "1.IH" [OF True sp [symmetric] refl]
      by (subst install_control_in.simps) (simp add: sp upt_conv_Cons)
  next
    case False
    then show ?thesis by (subst install_control_in.simps) simp
  qed
qed

lemma install_control_out_ids:
  "map fst (snd (install_control_out k i acc)) =
     map fst (snd acc) @ map (\<lambda>i. num_control_in k + i + 1) [i..<num_control_out k]"
proof (induction k i acc rule: install_control_out.induct)
  case (1 k i acc)
  show ?case
  proof (cases "i < num_control_out k")
    case True
    obtain ws p where sp:
      "gst_lv2_class_get_param_spec k (index (control_out_ports k ! i)) = (ws, p)"
      by (cases "gst_lv2_class_get_param_spec k (index (control_out_ports k ! i))")
    show ?thesis
      using True "1.IH" [OF True sp [symmetric] refl]
      by (subst install_control_out.simps) (simp add: sp upt_conv_Cons)
  next
    case False
    then show ?thesis by (subst install_control_out.simps) simp
  qed
qed

lemma class_init_property_ids:
  "map fst (snd (gst_lv2_class_init k)) =
     map Suc [0..<num_control_in k] @
     map (\<lambda>i. num_control_in k + i + 1) [0..<num_control_out k]"
  by (simp add: gst_lv2_class_init_def install_control_in_ids install_control_out_ids)

text \<open>
  C8. Properties are addressed from 1. With \<open>n\<close> control inputs and \<open>m\<close> control
  outputs, reading property \<open>i\<close> with \<open>1 \<le> i \<le> n\<close> reads slot \<open>i - 1\<close> of the
  control inputs and reading \<open>n < i \<le> n + m\<close> reads slot \<open>i - 1 - n\<close> of the control
  outputs. Writing a property outside \<open>1 \<le> i \<le> n\<close> (out of range, or a control
  output) ends in a critical message and leaves the element, hence every control slot,
  as it was.
\<close>

theorem property_index_space:
  assumes "num_control_in k + num_control_out k < 2 ^ 32"
  shows "(1 \<le> unat i \<and> unat i \<le> num_control_in k \<longrightarrow>
            gst_lv2_get_property k gsp i ty = read_control ty (control_in gsp ! (unat i - 1))) \<and>
         (num_control_in k < unat i \<and> unat i \<le> num_control_in k + num_control_out k \<longrightarrow>
            gst_lv2_get_property k gsp i ty =
              read_control ty (control_out gsp ! (unat i - 1 - num_control_in k))) \<and>
         (\<not> (1 \<le> unat i \<and> unat i \<le> num_control_in k) \<longrightarrow>
            gst_lv2_set_property f k gsp i v ty = (Critical, gsp))"
proof (intro conjI impI)
  assume a: "1 \<le> unat i \<and> unat i \<le> num_control_in k"
  then have dec: "unat (i - 1) = unat i - 1"
    by (simp add: unat_dec)
  have "unat i - 1 < num_control_in k"
    using a by arith
  then show "gst_lv2_get_property k gsp i ty = read_control ty (control_in gsp ! (unat i - 1))"
    using dec by (simp add: gst_lv2_get_property_def Let_def)
next
  assume a: "num_control_in k < unat i \<and> unat i \<le> num_control_in k + num_control_out k"
  then have dec: "unat (i - 1) = unat i - 1"
    by (simp add: unat_dec)
  have nci: "unat (word_of_nat (num_control_in k) :: guint) = num_control_in k"
    using assms by (simp add: unat_of_nat)
  have ge: "num_control_in k \<le> unat i - 1"
    using a by arith
  have "word_of_nat (num_control_in k) \<le> i - 1"
    using ge dec nci by (simp add: word_le_nat_alt)
  then have sub: "unat (i - 1 - word_of_nat (num_control_in k)) = unat i - 1 - num_control_in k"
    using dec nci by (simp add: unat_sub)
  have not_in: "\<not> unat i - 1 < num_control_in k"
    using a by arith
  have "unat i - 1 < num_control_in k + num_control_out k"
    using a by arith
  then have in_out: "unat i - 1 < (num_control_in k + num_control_out k) mod 2 ^ 32"
    using assms by simp
  show "gst_lv2_get_property k gsp i ty =
      read_control ty (control_out gsp ! (unat i - 1 - num_control_in k))"
    using dec sub not_in in_out by (simp add: gst_lv2_get_property_def Let_def)
next
  assume a: "\<not> (1 \<le> unat i \<and> unat i \<le> num_control_in k)"
  have "\<not> unat (i - 1) < num_control_in k"
  proof (cases "i = 0")
    case True
    then have "unat (i - 1) = 2 ^ 32 - 1"
      by (simp add: unsigned_minus_1_eq_mask mask_eq_exp_minus_1)
    then show ?thesis using assms by simp
  next
    case False
    then have "1 \<le> unat i"
      by (simp add: unat_gt_0 Suc_leI)
    then have "unat (i - 1) = unat i - 1" and "num_control_in k < unat i"
      using a by (simp_all add: unat_dec)
    then show ?thesis by simp
  qed
  then show "gst_lv2_set_property f k gsp i v ty = (Critical, gsp)"
    by (simp add: gst_lv2_set_property_def Let_def)
qed

theorem property_index_space_witness:
  "gst_lv2_get_property example_class example_lv2 2 G_TYPE_FLOAT = Got (G_float 1) \<and>
   gst_lv2_get_property example_class example_lv2 3 G_TYPE_FLOAT = Got (G_float (1 / 4)) \<and>
   gst_lv2_set_property real_of_int example_class example_lv2 3 (G_float 5) G_TYPE_FLOAT
     = (Critical, example_lv2) \<and>
   gst_lv2_set_property real_of_int example_class example_lv2 0 (G_float 5) G_TYPE_FLOAT
     = (Critical, example_lv2) \<and>
   gst_lv2_set_property real_of_int example_class example_lv2 4 (G_float 5) G_TYPE_FLOAT
     = (Critical, example_lv2)"
proof -
  have n: "num_control_in example_class + num_control_out example_class < 2 ^ 32"
    by (simp add: example_class_counts)
  show ?thesis
    using property_index_space [OF n, of 2 example_lv2 G_TYPE_FLOAT real_of_int "G_float 5"]
      property_index_space [OF n, of 3 example_lv2 G_TYPE_FLOAT real_of_int "G_float 5"]
      property_index_space [OF n, of 0 example_lv2 G_TYPE_FLOAT real_of_int "G_float 5"]
      property_index_space [OF n, of 4 example_lv2 G_TYPE_FLOAT real_of_int "G_float 5"]
    by (simp add: example_class_counts example_lv2_def read_control_def)
qed

text \<open>
  C10. For a boolean property of a control input, the setter stores 0 for \<open>TRUE\<close> and
  1 for \<open>FALSE\<close>; the getter reports \<open>TRUE\<close> exactly when the stored value is above
  0; so reading the property right after setting it to \<open>b\<close> gives \<open>\<not> b\<close>.
\<close>

theorem boolean_property_reads_back_negated:
  assumes "1 \<le> unat prop_id" and "unat prop_id \<le> num_control_in k"
    and "num_control_in k \<le> length (control_in gsp)"
  shows "gst_lv2_set_property f k gsp prop_id (G_boolean b) G_TYPE_BOOLEAN =
           (Normal, gsp\<lparr>control_in :=
              (control_in gsp)[unat prop_id - 1 := (if b then 0 else 1)]\<rparr>) \<and>
         gst_lv2_get_property k gsp prop_id G_TYPE_BOOLEAN =
           Got (G_boolean (control_in gsp ! (unat prop_id - 1) > 0)) \<and>
         gst_lv2_get_property k
           (snd (gst_lv2_set_property f k gsp prop_id (G_boolean b) G_TYPE_BOOLEAN))
           prop_id G_TYPE_BOOLEAN = Got (G_boolean (\<not> b))"
proof -
  have dec: "unat (prop_id - 1) = unat prop_id - 1"
    using assms(1) by (rule unat_dec)
  have less: "unat prop_id - 1 < num_control_in k"
    using assms(1,2) by arith
  then have len: "unat prop_id - 1 < length (control_in gsp)"
    using assms(3) by arith
  show ?thesis
    using dec less len
    by (simp add: gst_lv2_set_property_def gst_lv2_get_property_def read_control_def
        g_value_get_boolean_def Let_def)
qed

theorem boolean_property_reads_back_negated_witness:
  "gst_lv2_set_property real_of_int example_class example_lv2 2 (G_boolean True) G_TYPE_BOOLEAN
     = (Normal, example_lv2\<lparr>control_in := [1 / 2, 0]\<rparr>) \<and>
   gst_lv2_get_property example_class example_lv2 2 G_TYPE_BOOLEAN = Got (G_boolean True) \<and>
   gst_lv2_get_property example_class
       (snd (gst_lv2_set_property real_of_int example_class example_lv2 2 (G_boolean True)
               G_TYPE_BOOLEAN))
       2 G_TYPE_BOOLEAN = Got (G_boolean False)"
proof -
  have a: "1 \<le> unat (2::guint)" "unat (2::guint) \<le> num_control_in example_class"
    "num_control_in example_class \<le> length (control_in example_lv2)"
    by (simp_all add: example_class_counts example_lv2_def)
  show ?thesis
    using boolean_property_reads_back_negated [OF a, of real_of_int True]
    by (auto simp: example_lv2_def)
qed

section \<open>Lemmas about the classification\<close>

lemma find_group_Some: "gst_lv2_class_find_group gs u = Some i \<Longrightarrow> i < length gs"
  by (induction gs arbitrary: i) (auto split: if_splits)

lemma base_init_port_unsupported:
  "unsupported_port (plugin_ports p ! j) \<Longrightarrow> base_init_port p j v = v"
  by (simp add: base_init_port_def unsupported_port_def port_grouped_def Let_def)

lemma base_init_port_control:
  assumes "\<not> port_grouped (plugin_ports p ! j)"
    and "\<not> slv2_port_is_a (plugin_ports p ! j) Audio_class"
    and "slv2_port_is_a (plugin_ports p ! j) Control_class"
  shows "base_init_port p j v =
    (if slv2_port_is_a (plugin_ports p ! j) Input_class
     then v\<lparr>klass := (klass v)\<lparr>control_in_ports :=
            control_in_ports (klass v) @ [\<lparr>index = j, pad = 0\<rparr>]\<rparr>\<rparr>
     else v\<lparr>klass := (klass v)\<lparr>control_out_ports :=
            control_out_ports (klass v) @ [\<lparr>index = j, pad = 0\<rparr>]\<rparr>\<rparr>)"
  using assms by (simp add: base_init_port_def port_grouped_def Let_def)

lemma base_init_port_audio:
  assumes "\<not> port_grouped (plugin_ports p ! j)"
    and "slv2_port_is_a (plugin_ports p ! j) Audio_class"
  shows "base_init_port p j v =
    (if slv2_port_is_a (plugin_ports p ! j) Input_class
     then v\<lparr>klass := (klass v)\<lparr>audio_in_ports :=
              audio_in_ports (klass v) @ [\<lparr>index = j, pad = in_pad_index v\<rparr>]\<rparr>,
            in_pad_index := Suc (in_pad_index v)\<rparr>
     else v\<lparr>klass := (klass v)\<lparr>audio_out_ports :=
              audio_out_ports (klass v) @ [\<lparr>index = j, pad = out_pad_index v\<rparr>]\<rparr>,
            out_pad_index := Suc (out_pad_index v)\<rparr>)"
  using assms by (simp add: base_init_port_def port_grouped_def Let_def next_pad_index_def)

lemma base_init_port_group_found:
  assumes "port_grouped (plugin_ports p ! j)"
    and "gst_lv2_class_find_group
           (groups_of (slv2_port_is_a (plugin_ports p ! j) Input_class) (klass v))
           (port_in_group (plugin_ports p ! j) ! 0) = Some i"
  shows "base_init_port p j v =
    v\<lparr>klass := store_groups (slv2_port_is_a (plugin_ports p ! j) Input_class)
         ((groups_of (slv2_port_is_a (plugin_ports p ! j) Input_class) (klass v))
            [i := (groups_of (slv2_port_is_a (plugin_ports p ! j) Input_class) (klass v) ! i)
               \<lparr>g_ports := g_ports (groups_of (slv2_port_is_a (plugin_ports p ! j) Input_class)
                    (klass v) ! i) @ [\<lparr>index = j, pad = 0\<rparr>]\<rparr>])
         (klass v)\<rparr>"
  using assms by (simp add: base_init_port_def port_grouped_def Let_def)

lemma base_init_port_group_new:
  assumes "port_grouped (plugin_ports p ! j)"
    and "gst_lv2_class_find_group
           (groups_of (slv2_port_is_a (plugin_ports p ! j) Input_class) (klass v))
           (port_in_group (plugin_ports p ! j) ! 0) = None"
  shows "base_init_port p j v =
    (let g = \<lparr>g_uri = port_in_group (plugin_ports p ! j) ! 0,
              g_pad = pad_index (slv2_port_is_a (plugin_ports p ! j) Input_class) v,
              g_symbol =
                (if length (slv2_plugin_get_value_for_subject p
                      (port_in_group (plugin_ports p ! j) ! 0)) > 0
                 then Some (slv2_plugin_get_value_for_subject p
                      (port_in_group (plugin_ports p ! j) ! 0) ! 0)
                 else None),
              g_ports = [\<lparr>index = j, pad = 0\<rparr>]\<rparr>
     in if slv2_port_is_a (plugin_ports p ! j) Input_class
        then v\<lparr>in_pad_index := Suc (in_pad_index v),
               klass := (klass v)\<lparr>in_groups := in_groups (klass v) @ [g]\<rparr>\<rparr>
        else v\<lparr>out_pad_index := Suc (out_pad_index v),
               klass := (klass v)\<lparr>out_groups := out_groups (klass v) @ [g]\<rparr>\<rparr>)"
  using assms
  by (simp add: base_init_port_def port_grouped_def Let_def next_pad_index_def
      pad_index_def groups_of_def store_groups_def)

lemma base_init_find_ports_fold:
  "base_init_find_ports p j v = fold (base_init_port p) [j..<length (plugin_ports p)] v"
proof (induction p j v rule: base_init_find_ports.induct)
  case (1 lv2plugin j v)
  show ?case
  proof (cases "j < length (plugin_ports lv2plugin)")
    case True
    then show ?thesis
      using "1.IH" [OF True]
      by (subst base_init_find_ports.simps) (simp add: upt_conv_Cons)
  next
    case False
    then show ?thesis by (subst base_init_find_ports.simps) simp
  qed
qed

lemma map_g_pad_update:
  "map g_pad (gs[i := (gs ! i)\<lparr>g_ports := ps\<rparr>]) = map g_pad gs"
  by (induction gs arbitrary: i) (auto split: nat.splits)

text \<open>
  One iteration, seen from one direction: the port opens a new group of this direction,
  or is an ungrouped audio port of this direction, or leaves the pad numbers of this
  direction alone. In the first two cases the number comes from the same counter.
\<close>

lemma base_init_port_pads:
  "group_pads d (klass (base_init_port p j v)) = group_pads d (klass v) @ [pad_index d v] \<and>
   audio_pads d (klass (base_init_port p j v)) = audio_pads d (klass v) \<and>
   pad_index d (base_init_port p j v) = Suc (pad_index d v)
   \<or>
   group_pads d (klass (base_init_port p j v)) = group_pads d (klass v) \<and>
   audio_pads d (klass (base_init_port p j v)) = audio_pads d (klass v) @ [pad_index d v] \<and>
   pad_index d (base_init_port p j v) = Suc (pad_index d v)
   \<or>
   group_pads d (klass (base_init_port p j v)) = group_pads d (klass v) \<and>
   audio_pads d (klass (base_init_port p j v)) = audio_pads d (klass v) \<and>
   pad_index d (base_init_port p j v) = pad_index d v"
proof (cases "port_grouped (plugin_ports p ! j)")
  case grouped: True
  show ?thesis
  proof (cases "gst_lv2_class_find_group
      (groups_of (slv2_port_is_a (plugin_ports p ! j) Input_class) (klass v))
      (port_in_group (plugin_ports p ! j) ! 0)")
    case None
    show ?thesis
      by (simp add: base_init_port_group_new [OF grouped None] Let_def group_pads_def
          audio_pads_def pad_index_def groups_of_def audio_ports_of_def)
  next
    case (Some i)
    show ?thesis
      by (simp add: base_init_port_group_found [OF grouped Some] group_pads_def
          audio_pads_def pad_index_def groups_of_def audio_ports_of_def store_groups_def
          map_g_pad_update)
  qed
next
  case ungrouped: False
  show ?thesis
  proof (cases "slv2_port_is_a (plugin_ports p ! j) Audio_class")
    case True
    show ?thesis
      by (simp add: base_init_port_audio [OF ungrouped True] group_pads_def
          audio_pads_def pad_index_def groups_of_def audio_ports_of_def)
  next
    case not_audio: False
    show ?thesis
    proof (cases "slv2_port_is_a (plugin_ports p ! j) Control_class")
      case True
      show ?thesis
        by (simp add: base_init_port_control [OF ungrouped not_audio True] group_pads_def
            audio_pads_def pad_index_def groups_of_def audio_ports_of_def)
    next
      case False
      with ungrouped not_audio have "unsupported_port (plugin_ports p ! j)"
        by (simp add: unsupported_port_def)
      then show ?thesis
        by (simp add: base_init_port_unsupported)
    qed
  qed
qed

lemma one_pad_sequence_group:
  assumes "one_pad_sequence gp ap"
  shows "one_pad_sequence (gp @ [length gp + length ap]) ap"
proof -
  have below: "\<forall>x \<in> set gp \<union> set ap. x < length gp + length ap"
    using assms by (auto simp: one_pad_sequence_def)
  have "set (gp @ [length gp + length ap] @ ap) = {0..<Suc (length gp + length ap)}"
    using assms by (auto simp: one_pad_sequence_def)
  then show ?thesis
    using assms below by (auto simp: one_pad_sequence_def sorted_wrt_append)
qed

lemma one_pad_sequence_audio:
  assumes "one_pad_sequence gp ap"
  shows "one_pad_sequence gp (ap @ [length gp + length ap])"
proof -
  have below: "\<forall>x \<in> set gp \<union> set ap. x < length gp + length ap"
    using assms by (auto simp: one_pad_sequence_def)
  have "set (gp @ ap @ [length gp + length ap]) = {0..<Suc (length gp + length ap)}"
    using assms by (auto simp: one_pad_sequence_def)
  then show ?thesis
    using assms below by (auto simp: one_pad_sequence_def sorted_wrt_append)
qed

lemma pads_invariant_step:
  assumes "one_pad_sequence (group_pads d (klass v)) (audio_pads d (klass v))"
    and "pad_index d v = length (group_pads d (klass v)) + length (audio_pads d (klass v))"
  shows "one_pad_sequence (group_pads d (klass (base_init_port p j v)))
           (audio_pads d (klass (base_init_port p j v))) \<and>
         pad_index d (base_init_port p j v) =
           length (group_pads d (klass (base_init_port p j v))) +
           length (audio_pads d (klass (base_init_port p j v)))"
  using base_init_port_pads [of d p j v] assms
    one_pad_sequence_group [OF assms(1)] one_pad_sequence_audio [OF assms(1)]
  by (elim disjE conjE) simp_all

lemma pads_invariant_fold:
  assumes "one_pad_sequence (group_pads d (klass v)) (audio_pads d (klass v))"
    and "pad_index d v = length (group_pads d (klass v)) + length (audio_pads d (klass v))"
  shows "one_pad_sequence (group_pads d (klass (fold (base_init_port p) js v)))
           (audio_pads d (klass (fold (base_init_port p) js v)))"
  using assms
proof (induction js arbitrary: v)
  case Nil
  then show ?case by simp
next
  case (Cons j js)
  show ?case
    using Cons.IH pads_invariant_step [OF Cons.prems, of p j] by simp
qed

text \<open>One iteration, seen from each of the flat arrays: which port indices it adds.\<close>

lemma base_init_port_flat:
  "map index (audio_in_ports (klass (base_init_port p j v))) =
     map index (audio_in_ports (klass v)) @
       (if ungrouped_audio_input (plugin_ports p ! j) then [j] else [])"
  "map index (audio_out_ports (klass (base_init_port p j v))) =
     map index (audio_out_ports (klass v)) @
       (if ungrouped_audio_output (plugin_ports p ! j) then [j] else [])"
  "map index (control_in_ports (klass (base_init_port p j v))) =
     map index (control_in_ports (klass v)) @
       (if ungrouped_control_input (plugin_ports p ! j) then [j] else [])"
  "map index (control_out_ports (klass (base_init_port p j v))) =
     map index (control_out_ports (klass v)) @
       (if ungrouped_control_output (plugin_ports p ! j) then [j] else [])"
proof -
  let ?port = "plugin_ports p ! j"
  let ?goal = "
    map index (audio_in_ports (klass (base_init_port p j v))) =
      map index (audio_in_ports (klass v)) @ (if ungrouped_audio_input ?port then [j] else []) \<and>
    map index (audio_out_ports (klass (base_init_port p j v))) =
      map index (audio_out_ports (klass v)) @ (if ungrouped_audio_output ?port then [j] else []) \<and>
    map index (control_in_ports (klass (base_init_port p j v))) =
      map index (control_in_ports (klass v)) @ (if ungrouped_control_input ?port then [j] else []) \<and>
    map index (control_out_ports (klass (base_init_port p j v))) =
      map index (control_out_ports (klass v)) @ (if ungrouped_control_output ?port then [j] else [])"
  have ?goal
  proof (cases "port_grouped ?port")
    case grouped: True
    show ?thesis
    proof (cases "gst_lv2_class_find_group
        (groups_of (slv2_port_is_a ?port Input_class) (klass v)) (port_in_group ?port ! 0)")
      case None
      show ?thesis
        using grouped
        by (simp add: base_init_port_group_new [OF grouped None] Let_def
            ungrouped_audio_input_def ungrouped_audio_output_def
            ungrouped_control_input_def ungrouped_control_output_def)
    next
      case (Some i)
      show ?thesis
        using grouped
        by (simp add: base_init_port_group_found [OF grouped Some] store_groups_def
            ungrouped_audio_input_def ungrouped_audio_output_def
            ungrouped_control_input_def ungrouped_control_output_def)
    qed
  next
    case ungrouped: False
    show ?thesis
    proof (cases "slv2_port_is_a ?port Audio_class")
      case True
      show ?thesis
        using ungrouped True
        by (simp add: base_init_port_audio [OF ungrouped True]
            ungrouped_audio_input_def ungrouped_audio_output_def
            ungrouped_control_input_def ungrouped_control_output_def)
    next
      case not_audio: False
      show ?thesis
      proof (cases "slv2_port_is_a ?port Control_class")
        case True
        show ?thesis
          using ungrouped not_audio True
          by (simp add: base_init_port_control [OF ungrouped not_audio True]
              ungrouped_audio_input_def ungrouped_audio_output_def
              ungrouped_control_input_def ungrouped_control_output_def)
      next
        case False
        with ungrouped not_audio have "unsupported_port ?port"
          by (simp add: unsupported_port_def)
        then show ?thesis
          using ungrouped not_audio False
          by (simp add: base_init_port_unsupported
              ungrouped_audio_input_def ungrouped_audio_output_def
              ungrouped_control_input_def ungrouped_control_output_def)
      qed
    qed
  qed
  then show
    "map index (audio_in_ports (klass (base_init_port p j v))) =
       map index (audio_in_ports (klass v)) @
         (if ungrouped_audio_input (plugin_ports p ! j) then [j] else [])"
    "map index (audio_out_ports (klass (base_init_port p j v))) =
       map index (audio_out_ports (klass v)) @
         (if ungrouped_audio_output (plugin_ports p ! j) then [j] else [])"
    "map index (control_in_ports (klass (base_init_port p j v))) =
       map index (control_in_ports (klass v)) @
         (if ungrouped_control_input (plugin_ports p ! j) then [j] else [])"
    "map index (control_out_ports (klass (base_init_port p j v))) =
       map index (control_out_ports (klass v)) @
         (if ungrouped_control_output (plugin_ports p ! j) then [j] else [])"
    by simp_all
qed

lemma fold_collects:
  assumes "\<And>j v. f (step j v) = f v @ (if P j then [j] else [])"
  shows "f (fold step js v) = f v @ filter P js"
  by (induction js arbitrary: v) (simp_all add: assms)

lemma length_filter_nth:
  "length (filter (\<lambda>j. P (xs ! j)) [0..<length xs]) = length (filter P xs)"
proof -
  have "filter P xs = filter P (map ((!) xs) [0..<length xs])"
    by (simp add: map_nth)
  also have "\<dots> = map ((!) xs) (filter (\<lambda>j. P (xs ! j)) [0..<length xs])"
    by (simp add: filter_map comp_def)
  finally show ?thesis by simp
qed

lemma found_flat_lengths:
  assumes "audio_in_ports (klass v) = []" and "audio_out_ports (klass v) = []"
    and "control_in_ports (klass v) = []" and "control_out_ports (klass v) = []"
  shows "length (audio_in_ports (klass (base_init_find_ports p 0 v))) =
           length (filter ungrouped_audio_input (plugin_ports p))"
    and "length (audio_out_ports (klass (base_init_find_ports p 0 v))) =
           length (filter ungrouped_audio_output (plugin_ports p))"
    and "length (control_in_ports (klass (base_init_find_ports p 0 v))) =
           length (filter ungrouped_control_input (plugin_ports p))"
    and "length (control_out_ports (klass (base_init_find_ports p 0 v))) =
           length (filter ungrouped_control_output (plugin_ports p))"
proof -
  let ?v = "fold (base_init_port p) [0..<length (plugin_ports p)] v"
  have "map index (audio_in_ports (klass ?v)) =
      map index (audio_in_ports (klass v)) @
        filter (\<lambda>j. ungrouped_audio_input (plugin_ports p ! j)) [0..<length (plugin_ports p)]"
    by (rule fold_collects) (rule base_init_port_flat(1))
  then have "length (map index (audio_in_ports (klass ?v))) =
      length (filter ungrouped_audio_input (plugin_ports p))"
    using assms(1) by (simp add: length_filter_nth)
  then show "length (audio_in_ports (klass (base_init_find_ports p 0 v))) =
           length (filter ungrouped_audio_input (plugin_ports p))"
    by (simp add: base_init_find_ports_fold)
  have "map index (audio_out_ports (klass ?v)) =
      map index (audio_out_ports (klass v)) @
        filter (\<lambda>j. ungrouped_audio_output (plugin_ports p ! j)) [0..<length (plugin_ports p)]"
    by (rule fold_collects) (rule base_init_port_flat(2))
  then have "length (map index (audio_out_ports (klass ?v))) =
      length (filter ungrouped_audio_output (plugin_ports p))"
    using assms(2) by (simp add: length_filter_nth)
  then show "length (audio_out_ports (klass (base_init_find_ports p 0 v))) =
           length (filter ungrouped_audio_output (plugin_ports p))"
    by (simp add: base_init_find_ports_fold)
  have "map index (control_in_ports (klass ?v)) =
      map index (control_in_ports (klass v)) @
        filter (\<lambda>j. ungrouped_control_input (plugin_ports p ! j)) [0..<length (plugin_ports p)]"
    by (rule fold_collects) (rule base_init_port_flat(3))
  then have "length (map index (control_in_ports (klass ?v))) =
      length (filter ungrouped_control_input (plugin_ports p))"
    using assms(3) by (simp add: length_filter_nth)
  then show "length (control_in_ports (klass (base_init_find_ports p 0 v))) =
           length (filter ungrouped_control_input (plugin_ports p))"
    by (simp add: base_init_find_ports_fold)
  have "map index (control_out_ports (klass ?v)) =
      map index (control_out_ports (klass v)) @
        filter (\<lambda>j. ungrouped_control_output (plugin_ports p ! j)) [0..<length (plugin_ports p)]"
    by (rule fold_collects) (rule base_init_port_flat(4))
  then have "length (map index (control_out_ports (klass ?v))) =
      length (filter ungrouped_control_output (plugin_ports p))"
    using assms(4) by (simp add: length_filter_nth)
  then show "length (control_out_ports (klass (base_init_find_ports p 0 v))) =
           length (filter ungrouped_control_output (plugin_ports p))"
    by (simp add: base_init_find_ports_fold)
qed

section \<open>Lemmas about the pad templates\<close>

lemma add_in_group_templates_eq:
  "add_in_group_templates j k =
     k\<lparr>pad_templates := pad_templates k @
        map (\<lambda>j. \<lparr>tmpl_name = g_symbol (in_groups k ! j), tmpl_direction = GST_PAD_SINK,
                  tmpl_index = j, tmpl_channels = length (g_ports (in_groups k ! j))\<rparr>)
          [j..<num_group_in k]\<rparr>"
proof (induction j k rule: add_in_group_templates.induct)
  case (1 j k)
  show ?case
  proof (cases "j < num_group_in k")
    case True
    then show ?thesis
      using "1.IH" [OF True refl]
      by (subst add_in_group_templates.simps)
        (simp add: gst_signal_processor_class_add_pad_template_def upt_conv_Cons Let_def)
  next
    case False
    then show ?thesis by (subst add_in_group_templates.simps) simp
  qed
qed

lemma add_out_group_templates_eq:
  "add_out_group_templates j k =
     k\<lparr>pad_templates := pad_templates k @
        map (\<lambda>j. \<lparr>tmpl_name = g_symbol (out_groups k ! j), tmpl_direction = GST_PAD_SRC,
                  tmpl_index = j, tmpl_channels = length (g_ports (out_groups k ! j))\<rparr>)
          [j..<num_group_out k]\<rparr>"
proof (induction j k rule: add_out_group_templates.induct)
  case (1 j k)
  show ?case
  proof (cases "j < num_group_out k")
    case True
    then show ?thesis
      using "1.IH" [OF True refl]
      by (subst add_out_group_templates.simps)
        (simp add: gst_signal_processor_class_add_pad_template_def upt_conv_Cons Let_def)
  next
    case False
    then show ?thesis by (subst add_out_group_templates.simps) simp
  qed
qed

lemma add_audio_in_templates_eq:
  "add_audio_in_templates p j k =
     k\<lparr>pad_templates := pad_templates k @
        map (\<lambda>j. \<lparr>tmpl_name = Some (port_symbol (plugin_ports p ! index (audio_in_ports k ! j))),
                  tmpl_direction = GST_PAD_SINK, tmpl_index = j, tmpl_channels = 1\<rparr>)
          [j..<num_audio_in k]\<rparr>"
proof (induction p j k rule: add_audio_in_templates.induct)
  case (1 lv2plugin j k)
  show ?case
  proof (cases "j < num_audio_in k")
    case True
    then show ?thesis
      using "1.IH" [OF True refl refl refl]
      by (subst add_audio_in_templates.simps)
        (simp add: gst_signal_processor_class_add_pad_template_def upt_conv_Cons Let_def)
  next
    case False
    then show ?thesis by (subst add_audio_in_templates.simps) simp
  qed
qed

lemma add_audio_out_templates_eq:
  "add_audio_out_templates p j k =
     k\<lparr>pad_templates := pad_templates k @
        map (\<lambda>j. \<lparr>tmpl_name = Some (port_symbol (plugin_ports p ! index (audio_out_ports k ! j))),
                  tmpl_direction = GST_PAD_SINK, tmpl_index = j, tmpl_channels = 1\<rparr>)
          [j..<num_audio_out k]\<rparr>"
proof (induction p j k rule: add_audio_out_templates.induct)
  case (1 lv2plugin j k)
  show ?case
  proof (cases "j < num_audio_out k")
    case True
    then show ?thesis
      using "1.IH" [OF True refl refl refl]
      by (subst add_audio_out_templates.simps)
        (simp add: gst_signal_processor_class_add_pad_template_def upt_conv_Cons Let_def)
  next
    case False
    then show ?thesis by (subst add_audio_out_templates.simps) simp
  qed
qed

lemma base_init_add_pad_templates_eq:
  assumes "num_group_in k = length (in_groups k)" and "num_group_out k = length (out_groups k)"
    and "num_audio_in k = length (audio_in_ports k)"
    and "num_audio_out k = length (audio_out_ports k)"
  shows "base_init_add_pad_templates p k =
     k\<lparr>pad_templates := pad_templates k
        @ group_templates GST_PAD_SINK (in_groups k)
        @ group_templates GST_PAD_SRC (out_groups k)
        @ port_templates GST_PAD_SINK p (audio_in_ports k)
        @ port_templates GST_PAD_SINK p (audio_out_ports k)\<rparr>"
proof -
  define t1 where "t1 = pad_templates k @ group_templates GST_PAD_SINK (in_groups k)"
  define t2 where "t2 = t1 @ group_templates GST_PAD_SRC (out_groups k)"
  define t3 where "t3 = t2 @ port_templates GST_PAD_SINK p (audio_in_ports k)"
  define t4 where "t4 = t3 @ port_templates GST_PAD_SINK p (audio_out_ports k)"
  have s1: "add_in_group_templates 0 k = k\<lparr>pad_templates := t1\<rparr>"
    using assms(1) by (simp add: add_in_group_templates_eq group_templates_def t1_def)
  have s2: "add_out_group_templates 0 (k\<lparr>pad_templates := t1\<rparr>) = k\<lparr>pad_templates := t2\<rparr>"
    using assms(2) by (simp add: add_out_group_templates_eq group_templates_def t2_def)
  have s3: "add_audio_in_templates p 0 (k\<lparr>pad_templates := t2\<rparr>) = k\<lparr>pad_templates := t3\<rparr>"
    using assms(3) by (simp add: add_audio_in_templates_eq port_templates_def t3_def)
  have s4: "add_audio_out_templates p 0 (k\<lparr>pad_templates := t3\<rparr>) = k\<lparr>pad_templates := t4\<rparr>"
    using assms(4) by (simp add: add_audio_out_templates_eq port_templates_def t4_def)
  have "base_init_add_pad_templates p k = k\<lparr>pad_templates := t4\<rparr>"
    by (simp add: base_init_add_pad_templates_def s1 s2 s3 s4)
  then show ?thesis
    by (simp add: t4_def t3_def t2_def t1_def)
qed

text \<open>What \<open>gst_lv2_base_init\<close> leaves in the class.\<close>

lemma base_init_eq:
  "gst_lv2_base_init p g =
     (found_ports p g)
       \<lparr>num_group_in := length (in_groups (found_ports p g)),
        num_group_out := length (out_groups (found_ports p g)),
        num_audio_in := length (audio_in_ports (found_ports p g)),
        num_audio_out := length (audio_out_ports (found_ports p g)),
        num_control_in := length (control_in_ports (found_ports p g)),
        num_control_out := length (control_out_ports (found_ports p g)),
        pad_templates := pad_templates (found_ports p g)
          @ group_templates GST_PAD_SINK (in_groups (found_ports p g))
          @ group_templates GST_PAD_SRC (out_groups (found_ports p g))
          @ port_templates GST_PAD_SINK p (audio_in_ports (found_ports p g))
          @ port_templates GST_PAD_SINK p (audio_out_ports (found_ports p g)),
        klass_tags :=
          (if length (audio_in_ports (found_ports p g)) = 0 then ''Source/Audio/LV2''
           else if length (audio_out_ports (found_ports p g)) = 0 then
             (if length (control_out_ports (found_ports p g)) = 0 then ''Sink/Audio/LV2''
              else ''Sink/Analyzer/Audio/LV2'')
           else ''Filter/Effect/Audio/LV2''),
        can_process_in_place :=
          (if plugin_in_place_broken p then can_process_in_place (found_ports p g) else True),
        plugin := Some p\<rparr>"
proof -
  define k1 where "k1 = found_ports p g"
  define k2 where "k2 = base_init_set_counts k1"
  define ts where "ts = pad_templates k1
          @ group_templates GST_PAD_SINK (in_groups k1)
          @ group_templates GST_PAD_SRC (out_groups k1)
          @ port_templates GST_PAD_SINK p (audio_in_ports k1)
          @ port_templates GST_PAD_SINK p (audio_out_ports k1)"
  define tags where "tags =
          (if length (audio_in_ports k1) = 0 then ''Source/Audio/LV2''
           else if length (audio_out_ports k1) = 0 then
             (if length (control_out_ports k1) = 0 then ''Sink/Audio/LV2''
              else ''Sink/Analyzer/Audio/LV2'')
           else ''Filter/Effect/Audio/LV2'')"
  have counts: "num_group_in k2 = length (in_groups k2)"
    "num_group_out k2 = length (out_groups k2)"
    "num_audio_in k2 = length (audio_in_ports k2)"
    "num_audio_out k2 = length (audio_out_ports k2)"
    by (simp_all add: k2_def base_init_set_counts_def)
  have k3: "base_init_add_pad_templates p k2 = k2\<lparr>pad_templates := ts\<rparr>"
    unfolding base_init_add_pad_templates_eq [OF counts]
    by (simp add: k2_def base_init_set_counts_def ts_def)
  have k4: "choose_klass_tags (k2\<lparr>pad_templates := ts\<rparr>) = tags"
    by (simp add: choose_klass_tags_def k2_def base_init_set_counts_def tags_def)
  have "gst_lv2_base_init p g =
      (let k = base_init_add_pad_templates p k2;
           k = k\<lparr>klass_tags := choose_klass_tags k\<rparr>;
           k = (if \<not> plugin_in_place_broken p then k\<lparr>can_process_in_place := True\<rparr> else k)
       in k\<lparr>plugin := Some p\<rparr>)"
    unfolding gst_lv2_base_init_def k2_def k1_def found_ports_def cleared_class_def Let_def ..
  also have "\<dots> = k2\<lparr>pad_templates := ts, klass_tags := tags,
        can_process_in_place :=
          (if plugin_in_place_broken p then can_process_in_place k2 else True),
        plugin := Some p\<rparr>"
    by (simp add: k3 k4 Let_def)
  also have "\<dots> = k1
       \<lparr>num_group_in := length (in_groups k1),
        num_group_out := length (out_groups k1),
        num_audio_in := length (audio_in_ports k1),
        num_audio_out := length (audio_out_ports k1),
        num_control_in := length (control_in_ports k1),
        num_control_out := length (control_out_ports k1),
        pad_templates := ts, klass_tags := tags,
        can_process_in_place :=
          (if plugin_in_place_broken p then can_process_in_place k1 else True),
        plugin := Some p\<rparr>"
    by (simp add: k2_def base_init_set_counts_def)
  finally show ?thesis
    unfolding k1_def ts_def tags_def .
qed

lemma base_init_port_templates:
  "pad_templates (klass (base_init_port p j v)) = pad_templates (klass v)"
proof (cases "port_grouped (plugin_ports p ! j)")
  case grouped: True
  show ?thesis
  proof (cases "gst_lv2_class_find_group
      (groups_of (slv2_port_is_a (plugin_ports p ! j) Input_class) (klass v))
      (port_in_group (plugin_ports p ! j) ! 0)")
    case None
    show ?thesis
      by (simp add: base_init_port_group_new [OF grouped None] Let_def)
  next
    case (Some i)
    show ?thesis
      by (simp add: base_init_port_group_found [OF grouped Some] store_groups_def)
  qed
next
  case ungrouped: False
  show ?thesis
  proof (cases "slv2_port_is_a (plugin_ports p ! j) Audio_class")
    case True
    show ?thesis
      by (simp add: base_init_port_audio [OF ungrouped True])
  next
    case not_audio: False
    show ?thesis
    proof (cases "slv2_port_is_a (plugin_ports p ! j) Control_class")
      case True
      show ?thesis
        by (simp add: base_init_port_control [OF ungrouped not_audio True])
    next
      case False
      with ungrouped not_audio have "unsupported_port (plugin_ports p ! j)"
        by (simp add: unsupported_port_def)
      then show ?thesis
        by (simp add: base_init_port_unsupported)
    qed
  qed
qed

lemma found_ports_templates: "pad_templates (found_ports p g) = pad_templates g"
proof -
  have "pad_templates (klass (fold (base_init_port p) js v)) = pad_templates (klass v)" for js v
    by (induction js arbitrary: v) (simp_all add: base_init_port_templates)
  then show ?thesis
    by (simp add: found_ports_def base_init_find_ports_fold cleared_class_def)
qed

lemma found_ports_pads: "one_pad_sequence (group_pads d (found_ports p g)) (audio_pads d (found_ports p g))"
proof -
  let ?v = "\<lparr>klass = cleared_class g, in_pad_index = 0, out_pad_index = 0\<rparr>"
  have "one_pad_sequence (group_pads d (klass ?v)) (audio_pads d (klass ?v))"
    by (simp add: one_pad_sequence_def group_pads_def audio_pads_def groups_of_def
        audio_ports_of_def cleared_class_def)
  moreover have "pad_index d ?v =
      length (group_pads d (klass ?v)) + length (audio_pads d (klass ?v))"
    by (simp add: pad_index_def group_pads_def audio_pads_def groups_of_def
        audio_ports_of_def cleared_class_def)
  ultimately show ?thesis
    unfolding found_ports_def base_init_find_ports_fold
    by (rule pads_invariant_fold)
qed

lemma found_ports_flat_lengths:
  "length (audio_in_ports (found_ports p g)) = length (filter ungrouped_audio_input (plugin_ports p))"
  "length (audio_out_ports (found_ports p g)) = length (filter ungrouped_audio_output (plugin_ports p))"
  "length (control_in_ports (found_ports p g)) = length (filter ungrouped_control_input (plugin_ports p))"
  "length (control_out_ports (found_ports p g)) = length (filter ungrouped_control_output (plugin_ports p))"
  unfolding found_ports_def
  by (rule found_flat_lengths; simp add: cleared_class_def)+

lemma found_ports_audio_out_indices:
  "map index (audio_out_ports (found_ports p g)) =
     filter (\<lambda>j. ungrouped_audio_output (plugin_ports p ! j)) [0..<length (plugin_ports p)]"
proof -
  have "map index (audio_out_ports (klass (fold (base_init_port p) js v))) =
      map index (audio_out_ports (klass v)) @
        filter (\<lambda>j. ungrouped_audio_output (plugin_ports p ! j)) js" for js v
    by (rule fold_collects) (rule base_init_port_flat(2))
  then show ?thesis
    by (simp add: found_ports_def base_init_find_ports_fold cleared_class_def)
qed

lemma example_found_ports: "found_ports example_plugin empty_class = klass example_found"
  by (simp add: found_ports_def cleared_class_def base_init_find_ports.simps base_init_port_def
      example_plugin_def example_ports_def empty_class_def example_found_def Let_def
      slv2_port_is_a_def next_pad_index_def groups_of_def store_groups_def
      slv2_plugin_get_value_for_subject_def)

lemma example_found_fields:
  "in_groups (klass example_found) =
     [\<lparr>g_uri = ''urn:in'', g_pad = 0, g_symbol = Some ''in'',
       g_ports = [\<lparr>index = 0, pad = 0\<rparr>, \<lparr>index = 2, pad = 0\<rparr>]\<rparr>]"
  "out_groups (klass example_found) = []"
  "audio_in_ports (klass example_found) = [\<lparr>index = 1, pad = 1\<rparr>]"
  "audio_out_ports (klass example_found) = [\<lparr>index = 3, pad = 0\<rparr>]"
  "control_in_ports (klass example_found) = [\<lparr>index = 4, pad = 0\<rparr>, \<lparr>index = 6, pad = 0\<rparr>]"
  "control_out_ports (klass example_found) = [\<lparr>index = 7, pad = 0\<rparr>]"
  "pad_templates (klass example_found) = []"
  "can_process_in_place (klass example_found) = False"
  by (simp_all add: example_found_def empty_class_def)

lemma example_base_init: "gst_lv2_base_init example_plugin empty_class = example_class"
proof -
  have in_t: "group_templates GST_PAD_SINK (in_groups (klass example_found)) =
      [\<lparr>tmpl_name = Some ''in'', tmpl_direction = GST_PAD_SINK, tmpl_index = 0,
        tmpl_channels = 2\<rparr>]"
    by (simp add: example_found_fields group_templates_def)
  have out_t: "group_templates GST_PAD_SRC (out_groups (klass example_found)) = []"
    by (simp add: example_found_fields group_templates_def)
  have ain_t: "port_templates GST_PAD_SINK example_plugin (audio_in_ports (klass example_found)) =
      [\<lparr>tmpl_name = Some ''side'', tmpl_direction = GST_PAD_SINK, tmpl_index = 0,
        tmpl_channels = 1\<rparr>]"
    by (simp add: example_found_fields port_templates_def example_plugin_def example_ports_def)
  have aout_t: "port_templates GST_PAD_SINK example_plugin (audio_out_ports (klass example_found)) =
      [\<lparr>tmpl_name = Some ''out'', tmpl_direction = GST_PAD_SINK, tmpl_index = 0,
        tmpl_channels = 1\<rparr>]"
    by (simp add: example_found_fields port_templates_def example_plugin_def example_ports_def)
  have broken: "plugin_in_place_broken example_plugin = False"
    by (simp add: example_plugin_def)
  show ?thesis
    unfolding base_init_eq example_found_ports in_t out_t ain_t aout_t broken example_class_def
    by (simp add: example_found_fields example_templates_def)
qed

lemma stereo_found_ports: "found_ports stereo_plugin empty_class = stereo_found"
  by (simp add: found_ports_def cleared_class_def base_init_find_ports.simps base_init_port_def
      stereo_plugin_def empty_class_def stereo_found_def Let_def
      slv2_port_is_a_def next_pad_index_def groups_of_def store_groups_def
      slv2_plugin_get_value_for_subject_def)

lemma stereo_found_fields:
  "in_groups stereo_found =
     [\<lparr>g_uri = ''urn:in'', g_pad = 0, g_symbol = Some ''in'',
       g_ports = [\<lparr>index = 0, pad = 0\<rparr>, \<lparr>index = 1, pad = 0\<rparr>]\<rparr>]"
  "out_groups stereo_found =
     [\<lparr>g_uri = ''urn:out'', g_pad = 0, g_symbol = Some ''out'',
       g_ports = [\<lparr>index = 2, pad = 0\<rparr>, \<lparr>index = 3, pad = 0\<rparr>]\<rparr>]"
  "audio_in_ports stereo_found = []"
  "audio_out_ports stereo_found = [\<lparr>index = 5, pad = 1\<rparr>]"
  "control_in_ports stereo_found = [\<lparr>index = 4, pad = 0\<rparr>]"
  "control_out_ports stereo_found = []"
  "pad_templates stereo_found = []"
  by (simp_all add: stereo_found_def empty_class_def)

section \<open>The classification in declaration order\<close>

lemma opener_exists:
  "group_member p d u j \<Longrightarrow> \<exists>i\<le>j. opens_group p d i \<and> port_group_uri (plugin_ports p ! i) = u"
proof (induction j rule: less_induct)
  case (less j)
  show ?case
  proof (cases "opens_group p d j")
    case True
    with less.prems show ?thesis
      by (auto simp: group_member_def)
  next
    case False
    with less.prems have "filter (group_member p d u) [0..<j] \<noteq> []"
      by (auto simp: opens_group_def group_member_def)
    then obtain j' where "j' < j" and "group_member p d u j'"
      by (auto simp: filter_empty_conv)
    with less.IH [of j'] show ?thesis
      by (meson le_trans less_imp_le_nat)
  qed
qed

lemma expected_group_uris:
  "set (map g_uri (expected_groups p d m)) = {u. \<exists>j<m. group_member p d u j}"
proof (intro set_eqI iffI)
  fix u assume "u \<in> set (map g_uri (expected_groups p d m))"
  then show "u \<in> {u. \<exists>j<m. group_member p d u j}"
    by (auto simp: expected_groups_def expected_group_def opens_group_def)
next
  fix u assume "u \<in> {u. \<exists>j<m. group_member p d u j}"
  then obtain j where "j < m" and "group_member p d u j"
    by blast
  with opener_exists [of p d u j] obtain i where "i < m" and "opens_group p d i"
    and "port_group_uri (plugin_ports p ! i) = u"
    by (meson le_less_trans)
  then show "u \<in> set (map g_uri (expected_groups p d m))"
    by (force simp: expected_groups_def expected_group_def)
qed

lemma opens_group_iff:
  "opens_group p d m \<longleftrightarrow>
     group_member p d (port_group_uri (plugin_ports p ! m)) m \<and>
     port_group_uri (plugin_ports p ! m) \<notin> set (map g_uri (expected_groups p d m))"
  unfolding expected_group_uris
  by (auto simp: opens_group_def filter_empty_conv)

lemma expected_group_Suc:
  "expected_group p d (Suc m) j =
     (if group_member p d (port_group_uri (plugin_ports p ! j)) m
      then (expected_group p d m j)\<lparr>g_ports := g_ports (expected_group p d m j)
              @ [\<lparr>index = m, pad = 0\<rparr>]\<rparr>
      else expected_group p d m j)"
  by (simp add: expected_group_def)

lemma expected_group_uri [simp]:
  "g_uri (expected_group p d m j) = port_group_uri (plugin_ports p ! j)"
  by (simp add: expected_group_def)

lemma expected_groups_uri_list:
  "map g_uri (expected_groups p d m) =
     map (\<lambda>j. port_group_uri (plugin_ports p ! j)) (filter (opens_group p d) [0..<m])"
  by (simp add: expected_groups_def comp_def)

lemma expected_groups_distinct: "distinct (map g_uri (expected_groups p d m))"
proof (induction m)
  case 0
  show ?case by (simp add: expected_groups_def)
next
  case (Suc m)
  show ?case
  proof (cases "opens_group p d m")
    case True
    then have "port_group_uri (plugin_ports p ! m) \<notin> set (map g_uri (expected_groups p d m))"
      by (simp add: opens_group_iff)
    with Suc True show ?thesis
      unfolding expected_groups_uri_list by simp
  next
    case False
    with Suc show ?thesis
      unfolding expected_groups_uri_list by simp
  qed
qed

text \<open>The three ways in which one more port changes the groups of a direction.\<close>

lemma expected_groups_other:
  assumes "\<not> (port_grouped (plugin_ports p ! m) \<and>
              slv2_port_is_a (plugin_ports p ! m) Input_class = d)"
  shows "expected_groups p d (Suc m) = expected_groups p d m"
proof -
  have "\<not> group_member p d u m" for u
    using assms by (auto simp: group_member_def)
  then show ?thesis
    by (simp add: expected_groups_def expected_group_Suc opens_group_def)
qed

lemma expected_groups_joined:
  assumes "group_member p d u m" and "\<not> opens_group p d m"
  shows "expected_groups p d (Suc m) =
           map (\<lambda>g. if g_uri g = u
                     then g\<lparr>g_ports := g_ports g @ [\<lparr>index = m, pad = 0\<rparr>]\<rparr> else g)
             (expected_groups p d m)"
proof -
  have "group_member p d u' m \<longleftrightarrow> u' = u" for u'
    using assms(1) by (auto simp: group_member_def)
  then show ?thesis
    using assms(2) by (simp add: expected_groups_def expected_group_Suc)
qed

lemma expected_groups_opened:
  assumes "opens_group p d m"
  shows "expected_groups p d (Suc m) =
           expected_groups p d m @
             [\<lparr>g_uri = port_group_uri (plugin_ports p ! m), g_pad = pads_before p d m,
               g_symbol = group_symbol p (port_group_uri (plugin_ports p ! m)),
               g_ports = [\<lparr>index = m, pad = 0\<rparr>]\<rparr>]"
proof -
  let ?u = "port_group_uri (plugin_ports p ! m)"
  have member: "group_member p d ?u m" and none: "filter (group_member p d ?u) [0..<m] = []"
    using assms by (simp_all add: opens_group_def)
  have fresh: "?u \<notin> set (map g_uri (expected_groups p d m))"
    using assms by (simp add: opens_group_iff)
  have old: "expected_group p d (Suc m) j = expected_group p d m j"
    if "j \<in> set (filter (opens_group p d) [0..<m])" for j
  proof -
    have "port_group_uri (plugin_ports p ! j) \<in> set (map g_uri (expected_groups p d m))"
      using that by (force simp: expected_groups_def)
    with fresh have "port_group_uri (plugin_ports p ! j) \<noteq> ?u"
      by auto
    with member have "\<not> group_member p d (port_group_uri (plugin_ports p ! j)) m"
      by (auto simp: group_member_def)
    then show ?thesis
      by (simp add: expected_group_Suc)
  qed
  have "map (expected_group p d (Suc m)) (filter (opens_group p d) [0..<m]) =
      map (expected_group p d m) (filter (opens_group p d) [0..<m])"
    by (rule map_cong [OF refl]) (rule old)
  moreover have "expected_group p d (Suc m) m =
      \<lparr>g_uri = ?u, g_pad = pads_before p d m, g_symbol = group_symbol p ?u,
       g_ports = [\<lparr>index = m, pad = 0\<rparr>]\<rparr>"
    using member none by (simp add: expected_group_def)
  ultimately show ?thesis
    using assms by (simp add: expected_groups_def)
qed

lemma find_group_None:
  "gst_lv2_class_find_group gs u = None \<longleftrightarrow> u \<notin> set (map g_uri gs)"
  by (induction gs) auto

lemma find_group_update:
  assumes "gst_lv2_class_find_group gs u = Some i" and "distinct (map g_uri gs)"
  shows "gs[i := F (gs ! i)] = map (\<lambda>g. if g_uri g = u then F g else g) gs"
  using assms
proof (induction gs arbitrary: i)
  case Nil
  then show ?case by simp
next
  case (Cons g gs)
  show ?case
  proof (cases "g_uri g = u")
    case True
    with Cons.prems have "i = 0" and "u \<notin> set (map g_uri gs)"
      by auto
    then have "map (\<lambda>g. if g_uri g = u then F g else g) gs = gs"
      by (intro map_idI) auto
    with True \<open>i = 0\<close> show ?thesis
      by simp
  next
    case False
    with Cons.prems obtain i' where "i = Suc i'" and "gst_lv2_class_find_group gs u = Some i'"
      by auto
    with Cons.IH [of i'] Cons.prems False show ?thesis
      by simp
  qed
qed

lemma groups_of_store [simp]:
  "groups_of d (store_groups d' gs k) = (if d = d' then gs else groups_of d k)"
  "audio_ports_of d (store_groups d' gs k) = audio_ports_of d k"
  "control_ports_of d (store_groups d' gs k) = control_ports_of d k"
  by (auto simp: groups_of_def store_groups_def audio_ports_of_def control_ports_of_def)

text \<open>
  One iteration of the loop takes the arrays and the pad counter of a direction from
  what the first \<open>m\<close> ports give to what the first \<open>m + 1\<close> ports give.
\<close>

lemma classify_step:
  assumes G: "groups_of d (klass v) = expected_groups p d m"
    and A: "audio_ports_of d (klass v) = expected_audio p d m"
    and C: "control_ports_of d (klass v) = expected_control p d m"
    and I: "pad_index d v = pads_before p d m"
  shows "groups_of d (klass (base_init_port p m v)) = expected_groups p d (Suc m) \<and>
         audio_ports_of d (klass (base_init_port p m v)) = expected_audio p d (Suc m) \<and>
         control_ports_of d (klass (base_init_port p m v)) = expected_control p d (Suc m) \<and>
         pad_index d (base_init_port p m v) = pads_before p d (Suc m)"
proof (cases "port_grouped (plugin_ports p ! m)")
  case grouped: True
  let ?d' = "slv2_port_is_a (plugin_ports p ! m) Input_class"
  let ?u = "port_group_uri (plugin_ports p ! m)"
  have no_audio: "\<not> audio_pad_port p d m" "\<not> control_param_port p d m"
    using grouped by (simp_all add: audio_pad_port_def control_param_port_def)
  show ?thesis
  proof (cases "?d' = d")
    case other: False
    then have eg: "expected_groups p d (Suc m) = expected_groups p d m"
      by (intro expected_groups_other) auto
    have no_open: "\<not> opens_group p d m"
      using other by (auto simp: opens_group_def group_member_def)
    show ?thesis
    proof (cases "gst_lv2_class_find_group (groups_of ?d' (klass v)) (port_in_group (plugin_ports p ! m) ! 0)")
      case None
      show ?thesis
        using other G A C I no_audio no_open eg
        by (cases d; simp add: base_init_port_group_new [OF grouped None] Let_def
            expected_audio_def expected_control_def pads_before_def opens_pad_def
            groups_of_def audio_ports_of_def control_ports_of_def pad_index_def)
    next
      case (Some i)
      show ?thesis
        using other G A C I no_audio no_open eg
        by (cases d; simp add: base_init_port_group_found [OF grouped Some]
            expected_audio_def expected_control_def pads_before_def opens_pad_def
            pad_index_def)
    qed
  next
    case same: True
    have member: "group_member p d ?u m"
      using grouped same by (simp add: group_member_def)
    show ?thesis
    proof (cases "gst_lv2_class_find_group (groups_of ?d' (klass v)) (port_in_group (plugin_ports p ! m) ! 0)")
      case None
      then have "?u \<notin> set (map g_uri (expected_groups p d m))"
        using G same by (simp add: find_group_None port_group_uri_def)
      with member have opens: "opens_group p d m"
        by (simp add: opens_group_iff)
      show ?thesis
        using same G A C I no_audio opens expected_groups_opened [OF opens]
        by (cases d; simp add: base_init_port_group_new [OF grouped None] Let_def
            group_symbol_def port_group_uri_def
            expected_audio_def expected_control_def pads_before_def opens_pad_def
            groups_of_def audio_ports_of_def control_ports_of_def pad_index_def)
    next
      case (Some i)
      then have "?u \<in> set (map g_uri (expected_groups p d m))"
        using G same find_group_None [of "expected_groups p d m" ?u]
        by (simp add: port_group_uri_def)
      then have no_open: "\<not> opens_group p d m"
        by (simp add: opens_group_iff)
      have found: "gst_lv2_class_find_group (expected_groups p d m) ?u = Some i"
        using Some G same by (simp add: port_group_uri_def)
      note upd = find_group_update [OF found expected_groups_distinct,
          of "\<lambda>g. g\<lparr>g_ports := g_ports g @ [\<lparr>index = m, pad = 0\<rparr>]\<rparr>"]
      show ?thesis
        using same G A C I no_audio no_open upd expected_groups_joined [OF member no_open]
        by (cases d; simp add: base_init_port_group_found [OF grouped Some]
            expected_audio_def expected_control_def pads_before_def opens_pad_def
            pad_index_def)
    qed
  qed
next
  case ungrouped: False
  then have eg: "expected_groups p d (Suc m) = expected_groups p d m"
    by (intro expected_groups_other) auto
  have no_open: "\<not> opens_group p d m"
    using ungrouped by (auto simp: opens_group_def group_member_def)
  show ?thesis
  proof (cases "slv2_port_is_a (plugin_ports p ! m) Audio_class")
    case True
    show ?thesis
      using G A C I ungrouped True no_open eg
      by (cases d; simp add: base_init_port_audio [OF ungrouped True]
          expected_audio_def expected_control_def pads_before_def opens_pad_def
          audio_pad_port_def control_param_port_def
          groups_of_def audio_ports_of_def control_ports_of_def pad_index_def)
  next
    case not_audio: False
    show ?thesis
    proof (cases "slv2_port_is_a (plugin_ports p ! m) Control_class")
      case True
      show ?thesis
        using G A C I ungrouped not_audio True no_open eg
        by (cases d; simp add: base_init_port_control [OF ungrouped not_audio True]
            expected_audio_def expected_control_def pads_before_def opens_pad_def
            audio_pad_port_def control_param_port_def
            groups_of_def audio_ports_of_def control_ports_of_def pad_index_def)
    next
      case False
      with ungrouped not_audio have "unsupported_port (plugin_ports p ! m)"
        by (simp add: unsupported_port_def)
      then show ?thesis
        using G A C I ungrouped not_audio False no_open eg
        by (cases d; simp add: base_init_port_unsupported
            expected_audio_def expected_control_def pads_before_def opens_pad_def
            audio_pad_port_def control_param_port_def)
    qed
  qed
qed

lemma classify_prefix:
  assumes "groups_of d (klass v) = []" and "audio_ports_of d (klass v) = []"
    and "control_ports_of d (klass v) = []" and "pad_index d v = 0"
  shows "groups_of d (klass (fold (base_init_port p) [0..<m] v)) = expected_groups p d m \<and>
         audio_ports_of d (klass (fold (base_init_port p) [0..<m] v)) = expected_audio p d m \<and>
         control_ports_of d (klass (fold (base_init_port p) [0..<m] v)) = expected_control p d m \<and>
         pad_index d (fold (base_init_port p) [0..<m] v) = pads_before p d m"
proof (induction m)
  case 0
  show ?case
    using assms
    by (simp add: expected_groups_def expected_audio_def expected_control_def pads_before_def)
next
  case (Suc m)
  then show ?case
    using classify_step [of d "fold (base_init_port p) [0..<m] v" p m] by simp
qed

lemma found_ports_expected:
  "groups_of d (found_ports p g) = expected_groups p d (length (plugin_ports p))"
  "audio_ports_of d (found_ports p g) = expected_audio p d (length (plugin_ports p))"
  "control_ports_of d (found_ports p g) = expected_control p d (length (plugin_ports p))"
proof -
  let ?v = "\<lparr>klass = cleared_class g, in_pad_index = 0, out_pad_index = 0\<rparr>"
  have "groups_of d (klass ?v) = []" "audio_ports_of d (klass ?v) = []"
    "control_ports_of d (klass ?v) = []" "pad_index d ?v = 0"
    by (simp_all add: groups_of_def audio_ports_of_def control_ports_of_def pad_index_def
        cleared_class_def)
  from classify_prefix [OF this, of p "length (plugin_ports p)"]
  show "groups_of d (found_ports p g) = expected_groups p d (length (plugin_ports p))"
    "audio_ports_of d (found_ports p g) = expected_audio p d (length (plugin_ports p))"
    "control_ports_of d (found_ports p g) = expected_control p d (length (plugin_ports p))"
    by (simp_all add: found_ports_def base_init_find_ports_fold)
qed

lemma base_init_expected:
  "in_groups (gst_lv2_base_init p g) = expected_groups p True (length (plugin_ports p))"
  "out_groups (gst_lv2_base_init p g) = expected_groups p False (length (plugin_ports p))"
  "audio_in_ports (gst_lv2_base_init p g) = expected_audio p True (length (plugin_ports p))"
  "audio_out_ports (gst_lv2_base_init p g) = expected_audio p False (length (plugin_ports p))"
  "control_in_ports (gst_lv2_base_init p g) = expected_control p True (length (plugin_ports p))"
  "control_out_ports (gst_lv2_base_init p g) = expected_control p False (length (plugin_ports p))"
  using found_ports_expected [of True p g] found_ports_expected [of False p g]
  by (simp_all add: base_init_eq groups_of_def audio_ports_of_def control_ports_of_def)

lemma base_init_expected_counts:
  "num_group_in (gst_lv2_base_init p g) = length (expected_groups p True (length (plugin_ports p)))"
  "num_group_out (gst_lv2_base_init p g) = length (expected_groups p False (length (plugin_ports p)))"
  "num_audio_in (gst_lv2_base_init p g) = length (expected_audio p True (length (plugin_ports p)))"
  "num_audio_out (gst_lv2_base_init p g) = length (expected_audio p False (length (plugin_ports p)))"
  "num_control_in (gst_lv2_base_init p g) = length (expected_control p True (length (plugin_ports p)))"
  "num_control_out (gst_lv2_base_init p g) = length (expected_control p False (length (plugin_ports p)))"
  using found_ports_expected [of True p g] found_ports_expected [of False p g]
  by (simp_all add: base_init_eq groups_of_def audio_ports_of_def control_ports_of_def)

text \<open>The ports held by the expected arrays are the supported ports.\<close>

lemma supported_port_kinds:
  "\<not> unsupported_port (plugin_ports p ! j) \<longleftrightarrow>
     (\<exists>d. group_member p d (port_group_uri (plugin_ports p ! j)) j \<or>
          audio_pad_port p d j \<or> control_param_port p d j)"
  by (auto simp: unsupported_port_def group_member_def audio_pad_port_def
      control_param_port_def)

lemma expected_group_indices:
  "(\<Union>g \<in> set (expected_groups p d m). set (map index (g_ports g))) =
     {j. j < m \<and> (\<exists>u. group_member p d u j)}"
proof (intro set_eqI iffI)
  fix j assume "j \<in> (\<Union>g \<in> set (expected_groups p d m). set (map index (g_ports g)))"
  then show "j \<in> {j. j < m \<and> (\<exists>u. group_member p d u j)}"
    by (auto simp: expected_groups_def expected_group_def)
next
  fix j assume "j \<in> {j. j < m \<and> (\<exists>u. group_member p d u j)}"
  then obtain u where j: "j < m" and member: "group_member p d u j"
    by blast
  from opener_exists [OF member] obtain i where "i \<le> j" and i: "opens_group p d i"
    and u: "port_group_uri (plugin_ports p ! i) = u"
    by blast
  with j have "i \<in> set (filter (opens_group p d) [0..<m])"
    by simp
  then have "expected_group p d m i \<in> set (expected_groups p d m)"
    by (simp add: expected_groups_def)
  moreover have "j \<in> set (map index (g_ports (expected_group p d m i)))"
    using j member u by (force simp: expected_group_def)
  ultimately show "j \<in> (\<Union>g \<in> set (expected_groups p d m). set (map index (g_ports g)))"
    by blast
qed

lemma classified_indices_set:
  "set (classified_indices (gst_lv2_base_init p g)) =
     {j. j < length (plugin_ports p) \<and> \<not> unsupported_port (plugin_ports p ! j)}"
proof -
  let ?n = "length (plugin_ports p)"
  have flat: "set (map index (expected_audio p d ?n)) = {j. j < ?n \<and> audio_pad_port p d j}"
    "set (map index (expected_control p d ?n)) = {j. j < ?n \<and> control_param_port p d j}" for d
    by (auto simp: expected_audio_def expected_control_def)
  have "set (classified_indices (gst_lv2_base_init p g)) =
      (\<Union>g \<in> set (expected_groups p True ?n). set (map index (g_ports g))) \<union>
      (\<Union>g \<in> set (expected_groups p False ?n). set (map index (g_ports g))) \<union>
      set (map index (expected_audio p True ?n)) \<union> set (map index (expected_audio p False ?n)) \<union>
      set (map index (expected_control p True ?n)) \<union> set (map index (expected_control p False ?n))"
    by (simp add: classified_indices_def base_init_expected Un_assoc)
  also have "\<dots> = {j. j < ?n \<and> (\<exists>d. (\<exists>u. group_member p d u j) \<or> audio_pad_port p d j \<or>
      control_param_port p d j)}"
    unfolding expected_group_indices flat
    by (auto simp: ex_bool_eq)
  also have "\<dots> = {j. j < ?n \<and> \<not> unsupported_port (plugin_ports p ! j)}"
    by (auto simp: supported_port_kinds group_member_def)
  finally show ?thesis .
qed

section \<open>Properties of the classification\<close>

text \<open>
  C2, as the code has it. In each direction the pad numbers come from one counter that
  starts at zero and advances in declaration order. A group gets, at the port that
  opens it, the number of pads taken by the ports declared before that port; an
  ungrouped audio port gets the number of pads taken by the ports declared before it;
  a pad is taken by every port that opens a group of the direction and by every
  ungrouped audio port of the direction. So the groups and the ungrouped audio ports of
  a direction share one sequence: each of the two lists increases, no number is used
  twice, and together they are exactly the numbers below their joint count.
\<close>

theorem pad_numbers_share_one_counter:
  "map (\<lambda>gr. (g_uri gr, g_pad gr)) (in_groups (gst_lv2_base_init p g)) =
     map (\<lambda>j. (port_group_uri (plugin_ports p ! j), pads_before p True j))
       (filter (opens_group p True) [0..<length (plugin_ports p)]) \<and>
   audio_in_ports (gst_lv2_base_init p g) =
     map (\<lambda>j. \<lparr>index = j, pad = pads_before p True j\<rparr>)
       (filter (audio_pad_port p True) [0..<length (plugin_ports p)]) \<and>
   map (\<lambda>gr. (g_uri gr, g_pad gr)) (out_groups (gst_lv2_base_init p g)) =
     map (\<lambda>j. (port_group_uri (plugin_ports p ! j), pads_before p False j))
       (filter (opens_group p False) [0..<length (plugin_ports p)]) \<and>
   audio_out_ports (gst_lv2_base_init p g) =
     map (\<lambda>j. \<lparr>index = j, pad = pads_before p False j\<rparr>)
       (filter (audio_pad_port p False) [0..<length (plugin_ports p)]) \<and>
   one_pad_sequence (map g_pad (in_groups (gst_lv2_base_init p g)))
     (map pad (audio_in_ports (gst_lv2_base_init p g))) \<and>
   one_pad_sequence (map g_pad (out_groups (gst_lv2_base_init p g)))
     (map pad (audio_out_ports (gst_lv2_base_init p g)))"
proof -
  have seq: "one_pad_sequence (map g_pad (in_groups (gst_lv2_base_init p g)))
       (map pad (audio_in_ports (gst_lv2_base_init p g)))"
    "one_pad_sequence (map g_pad (out_groups (gst_lv2_base_init p g)))
       (map pad (audio_out_ports (gst_lv2_base_init p g)))"
    using found_ports_pads [of True p g] found_ports_pads [of False p g]
    by (simp_all add: base_init_eq group_pads_def audio_pads_def groups_of_def
        audio_ports_of_def)
  have groups: "map (\<lambda>gr. (g_uri gr, g_pad gr)) (expected_groups p d m) =
      map (\<lambda>j. (port_group_uri (plugin_ports p ! j), pads_before p d j))
        (filter (opens_group p d) [0..<m])" for d m
    by (simp add: expected_groups_def expected_group_def comp_def)
  show ?thesis
    using seq by (simp add: base_init_expected groups expected_audio_def)
qed

theorem pad_numbers_share_one_counter_witness:
  "map (\<lambda>gr. (g_uri gr, g_pad gr)) (in_groups (gst_lv2_base_init example_plugin empty_class))
     = [(''urn:in'', 0)] \<and>
   audio_in_ports (gst_lv2_base_init example_plugin empty_class) = [\<lparr>index = 1, pad = 1\<rparr>] \<and>
   map (\<lambda>gr. (g_uri gr, g_pad gr)) (in_groups (gst_lv2_base_init side_first_plugin empty_class))
     = [(''urn:in'', 1)] \<and>
   audio_in_ports (gst_lv2_base_init side_first_plugin empty_class) = [\<lparr>index = 0, pad = 0\<rparr>]"
proof -
  have e: "map (\<lambda>j. (port_group_uri (plugin_ports example_plugin ! j),
        pads_before example_plugin True j))
      (filter (opens_group example_plugin True) [0..<length (plugin_ports example_plugin)])
      = [(''urn:in'', 0)]"
    "map (\<lambda>j. \<lparr>index = j, pad = pads_before example_plugin True j\<rparr>)
      (filter (audio_pad_port example_plugin True) [0..<length (plugin_ports example_plugin)])
      = [\<lparr>index = 1, pad = 1\<rparr>]"
    by code_simp+
  have s: "map (\<lambda>j. (port_group_uri (plugin_ports side_first_plugin ! j),
        pads_before side_first_plugin True j))
      (filter (opens_group side_first_plugin True)
        [0..<length (plugin_ports side_first_plugin)])
      = [(''urn:in'', 1)]"
    "map (\<lambda>j. \<lparr>index = j, pad = pads_before side_first_plugin True j\<rparr>)
      (filter (audio_pad_port side_first_plugin True)
        [0..<length (plugin_ports side_first_plugin)])
      = [\<lparr>index = 0, pad = 0\<rparr>]"
    by code_simp+
  show ?thesis
    using pad_numbers_share_one_counter [of example_plugin empty_class]
      pad_numbers_share_one_counter [of side_first_plugin empty_class]
    unfolding e s by simp
qed

text \<open>
  C2 as stated fails. In the sample plugin the first input port opens the group
  \<open>in\<close>, which gets pad 0, and the first ungrouped audio input (port 1) gets pad 1,
  not 0.
\<close>

theorem independent_pad_numbers_counterexample:
  "in_groups (gst_lv2_base_init example_plugin empty_class) =
     [\<lparr>g_uri = ''urn:in'', g_pad = 0, g_symbol = Some ''in'',
       g_ports = [\<lparr>index = 0, pad = 0\<rparr>, \<lparr>index = 2, pad = 0\<rparr>]\<rparr>] \<and>
   audio_in_ports (gst_lv2_base_init example_plugin empty_class) = [\<lparr>index = 1, pad = 1\<rparr>] \<and>
   pad (hd (audio_in_ports (gst_lv2_base_init example_plugin empty_class))) \<noteq> 0"
  by (simp add: example_base_init example_class_arrays)

lemma klass_tags_counts_ungrouped_ports:
  "klass_tags (gst_lv2_base_init p g) =
     (if length (filter ungrouped_audio_input (plugin_ports p)) = 0 then ''Source/Audio/LV2''
      else if length (filter ungrouped_audio_output (plugin_ports p)) = 0 then
        (if length (filter ungrouped_control_output (plugin_ports p)) = 0
         then ''Sink/Audio/LV2'' else ''Sink/Analyzer/Audio/LV2'')
      else ''Filter/Effect/Audio/LV2'')"
  by (simp add: base_init_eq found_ports_flat_lengths)

text \<open>
  C3 requires the category filter/effect for a plugin that has audio inputs and audio
  outputs. The code does not give it when the audio ports are members of groups: the
  tag is chosen from \<open>num_audio_in\<close>, \<open>num_audio_out\<close> and \<open>num_control_out\<close>, the
  lengths of the arrays of ungrouped ports. On the plugin of the specification's
  scenario, whose ports 0 and 1 are audio inputs and whose ports 2 and 3 are audio
  outputs, \<open>gst_lv2_base_init\<close> finds one input group and one output group of two ports
  each, counts no audio input, and tags the class as a source.
\<close>

theorem grouped_audio_inputs_tagged_source:
  "map (\<lambda>port. (slv2_port_is_a port Audio_class, slv2_port_is_a port Input_class))
       (plugin_ports scenario_plugin)
     = [(True, True), (True, True), (True, False), (True, False), (False, True)] \<and>
   map (\<lambda>gr. (g_uri gr, map index (g_ports gr)))
       (in_groups (gst_lv2_base_init scenario_plugin empty_class))
     = [(''urn:in'', [0, 1])] \<and>
   map (\<lambda>gr. (g_uri gr, map index (g_ports gr)))
       (out_groups (gst_lv2_base_init scenario_plugin empty_class))
     = [(''urn:out'', [2, 3])] \<and>
   num_audio_in (gst_lv2_base_init scenario_plugin empty_class) = 0 \<and>
   num_audio_out (gst_lv2_base_init scenario_plugin empty_class) = 0 \<and>
   klass_tags (gst_lv2_base_init scenario_plugin empty_class) = ''Source/Audio/LV2''"
proof -
  have ports: "map (\<lambda>port. (slv2_port_is_a port Audio_class, slv2_port_is_a port Input_class))
       (plugin_ports scenario_plugin)
     = [(True, True), (True, True), (True, False), (True, False), (False, True)]"
    by (simp add: scenario_plugin_def slv2_port_is_a_def)
  have n: "length (plugin_ports scenario_plugin) = 5"
    by (simp add: scenario_plugin_def)
  have ins: "map (\<lambda>gr. (g_uri gr, map index (g_ports gr)))
       (expected_groups scenario_plugin True 5) = [(''urn:in'', [0, 1])]"
    by code_simp
  have outs: "map (\<lambda>gr. (g_uri gr, map index (g_ports gr)))
       (expected_groups scenario_plugin False 5) = [(''urn:out'', [2, 3])]"
    by code_simp
  have audio: "expected_audio scenario_plugin True 5 = []"
    "expected_audio scenario_plugin False 5 = []"
    by code_simp+
  have none: "filter ungrouped_audio_input (plugin_ports scenario_plugin) = []"
    by code_simp
  have tags: "klass_tags (gst_lv2_base_init scenario_plugin empty_class) = ''Source/Audio/LV2''"
    by (simp add: base_init_eq found_ports_flat_lengths none)
  show ?thesis
    using ports ins outs audio tags
    by (simp add: base_init_expected base_init_expected_counts n)
qed

text \<open>
  C6. The pad templates that \<open>gst_lv2_base_init\<close> adds are, in this order: one per
  input group, direction sink; one per output group, direction source; one per
  ungrouped audio input, direction sink; and one per ungrouped audio output, again with
  direction sink. Each list is numbered from 0. The ungrouped audio outputs of the class
  are the plugin's ungrouped ports of the audio class that are not inputs, in the order
  of their indices.
\<close>

theorem ungrouped_output_templates_use_sink:
  "pad_templates (gst_lv2_base_init p g) =
     pad_templates g
     @ group_templates GST_PAD_SINK (in_groups (gst_lv2_base_init p g))
     @ group_templates GST_PAD_SRC (out_groups (gst_lv2_base_init p g))
     @ port_templates GST_PAD_SINK p (audio_in_ports (gst_lv2_base_init p g))
     @ port_templates GST_PAD_SINK p (audio_out_ports (gst_lv2_base_init p g)) \<and>
   map index (audio_out_ports (gst_lv2_base_init p g)) =
     filter (\<lambda>j. ungrouped_audio_output (plugin_ports p ! j)) [0..<length (plugin_ports p)]"
  by (simp add: base_init_eq found_ports_templates found_ports_audio_out_indices)

theorem ungrouped_output_templates_use_sink_witness:
  "pad_templates (gst_lv2_base_init stereo_plugin empty_class) =
     [\<lparr>tmpl_name = Some ''in'', tmpl_direction = GST_PAD_SINK, tmpl_index = 0,
       tmpl_channels = 2\<rparr>,
      \<lparr>tmpl_name = Some ''out'', tmpl_direction = GST_PAD_SRC, tmpl_index = 0,
       tmpl_channels = 2\<rparr>,
      \<lparr>tmpl_name = Some ''monitor'', tmpl_direction = GST_PAD_SINK, tmpl_index = 0,
       tmpl_channels = 1\<rparr>]"
proof -
  have arrays: "in_groups (gst_lv2_base_init stereo_plugin empty_class) = in_groups stereo_found"
    "out_groups (gst_lv2_base_init stereo_plugin empty_class) = out_groups stereo_found"
    "audio_in_ports (gst_lv2_base_init stereo_plugin empty_class) = audio_in_ports stereo_found"
    "audio_out_ports (gst_lv2_base_init stereo_plugin empty_class) = audio_out_ports stereo_found"
    by (simp_all add: base_init_eq stereo_found_ports)
  from ungrouped_output_templates_use_sink [of stereo_plugin empty_class]
  show ?thesis
    unfolding arrays
    by (simp add: stereo_found_fields group_templates_def port_templates_def
        stereo_plugin_def empty_class_def)
qed

text \<open>
  C9. An ungrouped port that is neither of the audio class nor of the control class
  leaves the class and the pad counters as they are, and the loop goes on to the end:
  the class that \<open>gst_lv2_base_init\<close> returns holds, in each array, what the plugin's
  ports give in declaration order, and each count is the length of its array. The ports
  held by the arrays are exactly the ports that are grouped, audio or control: every
  remaining port is classified, and the dropped port is in no array.
\<close>

theorem unsupported_ports_are_dropped:
  "(unsupported_port (plugin_ports p ! j) \<longrightarrow> base_init_port p j v = v) \<and>
   in_groups (gst_lv2_base_init p g) = expected_groups p True (length (plugin_ports p)) \<and>
   out_groups (gst_lv2_base_init p g) = expected_groups p False (length (plugin_ports p)) \<and>
   audio_in_ports (gst_lv2_base_init p g) = expected_audio p True (length (plugin_ports p)) \<and>
   audio_out_ports (gst_lv2_base_init p g) = expected_audio p False (length (plugin_ports p)) \<and>
   control_in_ports (gst_lv2_base_init p g) = expected_control p True (length (plugin_ports p)) \<and>
   control_out_ports (gst_lv2_base_init p g) = expected_control p False (length (plugin_ports p)) \<and>
   num_group_in (gst_lv2_base_init p g) = length (in_groups (gst_lv2_base_init p g)) \<and>
   num_group_out (gst_lv2_base_init p g) = length (out_groups (gst_lv2_base_init p g)) \<and>
   num_audio_in (gst_lv2_base_init p g) = length (audio_in_ports (gst_lv2_base_init p g)) \<and>
   num_audio_out (gst_lv2_base_init p g) = length (audio_out_ports (gst_lv2_base_init p g)) \<and>
   num_control_in (gst_lv2_base_init p g) = length (control_in_ports (gst_lv2_base_init p g)) \<and>
   num_control_out (gst_lv2_base_init p g) = length (control_out_ports (gst_lv2_base_init p g)) \<and>
   set (classified_indices (gst_lv2_base_init p g)) =
     {i. i < length (plugin_ports p) \<and> \<not> unsupported_port (plugin_ports p ! i)}"
  by (simp add: base_init_port_unsupported base_init_expected base_init_expected_counts
      classified_indices_set)

theorem unsupported_ports_are_dropped_witness:
  "unsupported_port (plugin_ports example_plugin ! 5) \<and>
   base_init_port example_plugin 5 \<lparr>klass = empty_class, in_pad_index = 0, out_pad_index = 0\<rparr>
     = \<lparr>klass = empty_class, in_pad_index = 0, out_pad_index = 0\<rparr> \<and>
   5 \<notin> set (classified_indices (gst_lv2_base_init example_plugin empty_class)) \<and>
   6 \<in> set (classified_indices (gst_lv2_base_init example_plugin empty_class)) \<and>
   control_in_ports (gst_lv2_base_init example_plugin empty_class) =
     [\<lparr>index = 4, pad = 0\<rparr>, \<lparr>index = 6, pad = 0\<rparr>] \<and>
   num_control_in (gst_lv2_base_init example_plugin empty_class) = 2"
proof -
  have u: "unsupported_port (plugin_ports example_plugin ! 5)"
    "\<not> unsupported_port (plugin_ports example_plugin ! 6)"
    "(6::nat) < length (plugin_ports example_plugin)"
    by (simp_all add: example_plugin_def example_ports_def unsupported_port_def
        port_grouped_def slv2_port_is_a_def)
  have c: "expected_control example_plugin True (length (plugin_ports example_plugin)) =
      [\<lparr>index = 4, pad = 0\<rparr>, \<lparr>index = 6, pad = 0\<rparr>]"
    by code_simp
  note t = unsupported_ports_are_dropped
      [of example_plugin 5 "\<lparr>klass = empty_class, in_pad_index = 0, out_pad_index = 0\<rparr>"
        empty_class]
  from t u show ?thesis
    unfolding c by simp
qed

section \<open>Properties of the parameter specifications\<close>

lemma gint_of_gfloat_eq:
  "gint_of_gfloat x = (if fits_gint x then Some (gfloat_truncate x) else None)"
  by (simp add: gint_of_gfloat_def fits_gint_def gfloat_truncate_def Let_def)

lemma gfloat_truncate_mono: "x \<le> y \<Longrightarrow> gfloat_truncate x \<le> gfloat_truncate y"
proof -
  assume xy: "x \<le> y"
  have cross: "\<lceil>x\<rceil> \<le> \<lfloor>y\<rfloor>" if "x \<le> 0" and "0 \<le> y"
  proof -
    have "\<lceil>x\<rceil> \<le> 0"
      using that(1) by simp
    moreover have "0 \<le> \<lfloor>y\<rfloor>"
      using that(2) by simp
    ultimately show ?thesis
      by linarith
  qed
  show ?thesis
  proof (cases "0 \<le> x")
    case True
    then have "0 \<le> y"
      using xy by simp
    then show ?thesis
      using True xy by (simp add: gfloat_truncate_def floor_mono)
  next
    case False
    show ?thesis
    proof (cases "0 \<le> y")
      case True
      have "x \<le> 0"
        using False by simp
      then show ?thesis
        using False True cross by (simp add: gfloat_truncate_def)
    next
      case no: False
      then show ?thesis
        using False xy by (simp add: gfloat_truncate_def ceiling_mono)
    qed
  qed
qed

lemma g_param_spec_int_eq:
  "g_param_spec_int name lower upper def perms =
     (if fits_gint lower \<and> fits_gint upper \<and> fits_gint def
      then Some (Param_spec_int name (gfloat_truncate lower) (gfloat_truncate upper)
                   (gfloat_truncate def) perms)
      else None)"
  by (simp add: g_param_spec_int_def gint_of_gfloat_eq)

text \<open>
  C4, as the code has it. Take a port whose declared default lies outside its declared
  bounds.

  \<^item> With the toggle annotation the port gets a boolean specification with default
    \<open>FALSE\<close>: its range is not read, no bound is widened and nothing is logged.
  \<^item> Without it, the bound that the default violates is replaced by the default, the
    default is kept, and one warning is logged for each bound that was moved.
  \<^item> Without the integer annotation these values are the float specification: the
    lower bound is the default when the default was below it, the upper bound is the
    default when the default was above it, and the default is the declared one.
  \<^item> With the integer annotation the three values are then converted to \<open>gint\<close>,
    which truncates them towards zero (and defines no specification when one does not
    fit): the integer default is the truncated declared default; it lies within the
    integer bounds, the moved bound being equal to it.
\<close>

theorem default_outside_range_widens_bound:
  assumes "plugin k = Some p"
    and "port_default (plugin_ports p ! portnum) = Some d"
    and "port_minimum (plugin_ports p ! portnum) = Some lo"
    and "port_maximum (plugin_ports p ! portnum) = Some hi"
    and "d < lo \<or> hi < d"
  shows "(slv2_port_has_property (plugin_ports p ! portnum) Toggled_prop \<longrightarrow>
            gst_lv2_class_get_param_spec k portnum =
              ([], Some (Param_spec_boolean (port_symbol (plugin_ports p ! portnum)) False
                     (param_perms (plugin_ports p ! portnum))))) \<and>
         (\<not> slv2_port_has_property (plugin_ports p ! portnum) Toggled_prop \<longrightarrow>
            fst (gst_lv2_class_get_param_spec k portnum) \<noteq> [] \<and>
            fst (gst_lv2_class_get_param_spec k portnum) =
              (if d < lo then [Lower_bound_above_default (plugin_uri p) lo d] else []) @
              (if hi < d then [Upper_bound_below_default (plugin_uri p) hi d] else [])) \<and>
         (\<not> slv2_port_has_property (plugin_ports p ! portnum) Toggled_prop \<and>
          \<not> slv2_port_has_property (plugin_ports p ! portnum) Integer_prop \<longrightarrow>
            snd (gst_lv2_class_get_param_spec k portnum) =
              Some (Param_spec_float (port_symbol (plugin_ports p ! portnum))
                     (if d < lo then d else lo) (if hi < d then d else hi) d
                     (param_perms (plugin_ports p ! portnum)))) \<and>
         (\<not> slv2_port_has_property (plugin_ports p ! portnum) Toggled_prop \<and>
          slv2_port_has_property (plugin_ports p ! portnum) Integer_prop \<longrightarrow>
            snd (gst_lv2_class_get_param_spec k portnum) =
              (if fits_gint (if d < lo then d else lo) \<and> fits_gint (if hi < d then d else hi) \<and>
                  fits_gint d
               then Some (Param_spec_int (port_symbol (plugin_ports p ! portnum))
                      (gfloat_truncate (if d < lo then d else lo))
                      (gfloat_truncate (if hi < d then d else hi))
                      (gfloat_truncate d) (param_perms (plugin_ports p ! portnum)))
               else None) \<and>
            gfloat_truncate (if d < lo then d else lo) \<le> gfloat_truncate d \<and>
            gfloat_truncate d \<le> gfloat_truncate (if hi < d then d else hi))"
proof -
  have lower: "gfloat_truncate (if d < lo then d else lo) \<le> gfloat_truncate d"
    by (rule gfloat_truncate_mono) simp
  have upper: "gfloat_truncate d \<le> gfloat_truncate (if hi < d then d else hi)"
    by (rule gfloat_truncate_mono) simp
  show ?thesis
    using assms lower upper
    by (auto simp: gst_lv2_class_get_param_spec_def gst_lv2_class_get_param_name_def
        Let_def g_param_spec_int_eq)
qed

theorem default_outside_range_widens_bound_witness:
  "gst_lv2_class_get_param_spec example_class 4 =
     ([Upper_bound_below_default ''http://example.org/lv2/amp#1'' 1 (3 / 2)],
      Some (Param_spec_float ''gain'' 0 (3 / 2) (3 / 2)
              {G_PARAM_READABLE, G_PARAM_WRITABLE, G_PARAM_CONSTRUCT, GST_PARAM_CONTROLLABLE})) \<and>
   gst_lv2_class_get_param_spec steps_class 0 =
     ([Upper_bound_below_default ''http://example.org/lv2/steps'' 1 (3 / 2)],
      Some (Param_spec_int ''steps'' 0 1 1
              {G_PARAM_READABLE, G_PARAM_WRITABLE, G_PARAM_CONSTRUCT, GST_PARAM_CONTROLLABLE}))"
proof -
  have k: "plugin example_class = Some example_plugin"
    by (simp add: example_class_def)
  have port: "plugin_ports example_plugin ! 4 =
      \<lparr>port_classes = [Input_class, Control_class], port_in_group = [],
       port_symbol = ''gain'', port_properties = [],
       port_default = Some (3 / 2), port_minimum = Some 0, port_maximum = Some 1\<rparr>"
    by (simp add: example_plugin_def example_ports_def)
  have a: "port_default (plugin_ports example_plugin ! 4) = Some (3 / 2)"
    "port_minimum (plugin_ports example_plugin ! 4) = Some 0"
    "port_maximum (plugin_ports example_plugin ! 4) = Some 1"
    "(3 / 2 :: gfloat) < 0 \<or> (1 :: gfloat) < 3 / 2"
    by (simp_all add: port)
  have perms: "param_perms (plugin_ports example_plugin ! 4) =
      {G_PARAM_READABLE, G_PARAM_WRITABLE, G_PARAM_CONSTRUCT, GST_PARAM_CONTROLLABLE}"
    by (auto simp: port param_perms_def slv2_port_is_a_def)
  have uri: "plugin_uri example_plugin = ''http://example.org/lv2/amp#1''"
    by (simp add: example_plugin_def)
  have float: "gst_lv2_class_get_param_spec example_class 4 =
     ([Upper_bound_below_default ''http://example.org/lv2/amp#1'' 1 (3 / 2)],
      Some (Param_spec_float ''gain'' 0 (3 / 2) (3 / 2)
              {G_PARAM_READABLE, G_PARAM_WRITABLE, G_PARAM_CONSTRUCT, GST_PARAM_CONTROLLABLE}))"
    using default_outside_range_widens_bound [OF k a]
    unfolding perms uri
    by (simp add: port slv2_port_has_property_def prod_eq_iff)
  have k': "plugin steps_class = Some steps_plugin"
    by (simp add: steps_class_def)
  have port': "plugin_ports steps_plugin ! 0 =
      \<lparr>port_classes = [Input_class, Control_class], port_in_group = [],
       port_symbol = ''steps'', port_properties = [Integer_prop],
       port_default = Some (3 / 2), port_minimum = Some 0, port_maximum = Some 1\<rparr>"
    by (simp add: steps_plugin_def)
  have a': "port_default (plugin_ports steps_plugin ! 0) = Some (3 / 2)"
    "port_minimum (plugin_ports steps_plugin ! 0) = Some 0"
    "port_maximum (plugin_ports steps_plugin ! 0) = Some 1"
    "(3 / 2 :: gfloat) < 0 \<or> (1 :: gfloat) < 3 / 2"
    by (simp_all add: port')
  have perms': "param_perms (plugin_ports steps_plugin ! 0) =
      {G_PARAM_READABLE, G_PARAM_WRITABLE, G_PARAM_CONSTRUCT, GST_PARAM_CONTROLLABLE}"
    by (auto simp: port' param_perms_def slv2_port_is_a_def)
  have uri': "plugin_uri steps_plugin = ''http://example.org/lv2/steps''"
    by (simp add: steps_plugin_def)
  have trunc: "gfloat_truncate 0 = 0" "gfloat_truncate (3 / 2) = 1"
    "fits_gint 0" "fits_gint (3 / 2)"
    by (simp_all add: gfloat_truncate_def fits_gint_def)
  have int: "gst_lv2_class_get_param_spec steps_class 0 =
     ([Upper_bound_below_default ''http://example.org/lv2/steps'' 1 (3 / 2)],
      Some (Param_spec_int ''steps'' 0 1 1
              {G_PARAM_READABLE, G_PARAM_WRITABLE, G_PARAM_CONSTRUCT, GST_PARAM_CONTROLLABLE}))"
    using default_outside_range_widens_bound [OF k' a']
    unfolding perms' uri'
    by (simp add: port' slv2_port_has_property_def prod_eq_iff trunc)
  from float int show ?thesis
    by simp
qed

text \<open>
  C4 as stated fails on a toggled control port. Port 6 of the sample plugin is a
  control input with the toggle annotation, declared default 2 and declared range
  \<open>[0, 1]\<close>: its specification is a boolean with default \<open>FALSE\<close>, no bound is
  widened and no warning is logged. It also fails on an integer port: with declared
  range \<open>[0, 1]\<close> and declared default \<open>3 / 2\<close> the integer specification has upper
  bound 1 and default 1, not the declared default.
\<close>

theorem toggled_port_not_widened_counterexample:
  "slv2_port_is_a (plugin_ports example_plugin ! 6) Control_class \<and>
   port_default (plugin_ports example_plugin ! 6) = Some 2 \<and>
   port_minimum (plugin_ports example_plugin ! 6) = Some 0 \<and>
   port_maximum (plugin_ports example_plugin ! 6) = Some 1 \<and>
   gst_lv2_class_get_param_spec example_class 6 =
     ([], Some (Param_spec_boolean ''bypass'' False
        {G_PARAM_READABLE, G_PARAM_WRITABLE, G_PARAM_CONSTRUCT, GST_PARAM_CONTROLLABLE})) \<and>
   slv2_port_is_a (plugin_ports steps_plugin ! 0) Control_class \<and>
   port_default (plugin_ports steps_plugin ! 0) = Some (3 / 2) \<and>
   port_minimum (plugin_ports steps_plugin ! 0) = Some 0 \<and>
   port_maximum (plugin_ports steps_plugin ! 0) = Some 1 \<and>
   snd (gst_lv2_class_get_param_spec steps_class 0) =
     Some (Param_spec_int ''steps'' 0 1 1
        {G_PARAM_READABLE, G_PARAM_WRITABLE, G_PARAM_CONSTRUCT, GST_PARAM_CONTROLLABLE})"
proof -
  have k: "plugin example_class = Some example_plugin"
    by (simp add: example_class_def)
  have port: "plugin_ports example_plugin ! 6 =
      \<lparr>port_classes = [Input_class, Control_class], port_in_group = [],
       port_symbol = ''bypass'', port_properties = [Toggled_prop],
       port_default = Some 2, port_minimum = Some 0, port_maximum = Some 1\<rparr>"
    by (simp add: example_plugin_def example_ports_def)
  have perms: "param_perms (plugin_ports example_plugin ! 6) =
      {G_PARAM_READABLE, G_PARAM_WRITABLE, G_PARAM_CONSTRUCT, GST_PARAM_CONTROLLABLE}"
    by (auto simp: port param_perms_def slv2_port_is_a_def)
  have toggled: "gst_lv2_class_get_param_spec example_class 6 =
     ([], Some (Param_spec_boolean ''bypass'' False
        {G_PARAM_READABLE, G_PARAM_WRITABLE, G_PARAM_CONSTRUCT, GST_PARAM_CONTROLLABLE}))"
    unfolding perms [symmetric]
    by (simp add: gst_lv2_class_get_param_spec_def k gst_lv2_class_get_param_name_def
        Let_def port slv2_port_has_property_def)
  have k': "plugin steps_class = Some steps_plugin"
    by (simp add: steps_class_def)
  have port': "plugin_ports steps_plugin ! 0 =
      \<lparr>port_classes = [Input_class, Control_class], port_in_group = [],
       port_symbol = ''steps'', port_properties = [Integer_prop],
       port_default = Some (3 / 2), port_minimum = Some 0, port_maximum = Some 1\<rparr>"
    by (simp add: steps_plugin_def)
  have perms': "param_perms (plugin_ports steps_plugin ! 0) =
      {G_PARAM_READABLE, G_PARAM_WRITABLE, G_PARAM_CONSTRUCT, GST_PARAM_CONTROLLABLE}"
    by (auto simp: port' param_perms_def slv2_port_is_a_def)
  have trunc: "gfloat_truncate 0 = 0" "gfloat_truncate (3 / 2) = 1"
    "fits_gint 0" "fits_gint (3 / 2)"
    by (simp_all add: gfloat_truncate_def fits_gint_def)
  have int: "snd (gst_lv2_class_get_param_spec steps_class 0) =
     Some (Param_spec_int ''steps'' 0 1 1
        {G_PARAM_READABLE, G_PARAM_WRITABLE, G_PARAM_CONSTRUCT, GST_PARAM_CONTROLLABLE})"
    unfolding perms' [symmetric]
    by (simp add: gst_lv2_class_get_param_spec_def k' gst_lv2_class_get_param_name_def
        Let_def port' slv2_port_has_property_def g_param_spec_int_eq trunc)
  from toggled int show ?thesis
    by (simp add: port port' slv2_port_is_a_def)
qed

section \<open>Properties of discovery\<close>

lemma discover_from_fold:
  "discover_from ok ps i r = fold (discover_plugin ok) (drop i ps) r"
proof (induction ok ps i r rule: discover_from.induct)
  case (1 ok plugins i r)
  show ?case
  proof (cases "i < length plugins")
    case True
    then show ?thesis
      using "1.IH" [OF True]
      by (subst discover_from.simps) (simp add: Cons_nth_drop_Suc [symmetric])
  next
    case False
    then show ?thesis by (subst discover_from.simps) simp
  qed
qed

lemma scanned_fold: "scanned ok ps r n = fold (discover_plugin ok) (take n ps) r"
  by (simp add: scanned_def discover_from_fold)

lemma scanned_Suc:
  "n < length ps \<Longrightarrow> scanned ok ps r (Suc n) = discover_plugin ok (ps ! n) (scanned ok ps r n)"
  by (simp add: scanned_fold take_Suc_conv_app_nth)

lemma discover_plugin_skips:
  "g_type_from_name r (plugin_type_name p) \<Longrightarrow> discover_plugin ok p r = r"
  by (simp add: discover_plugin_def plugin_type_name_def)

lemma discover_plugin_registers:
  "g_type_from_name (discover_plugin ok p r) (plugin_type_name p)"
  by (simp add: discover_plugin_def plugin_type_name_def g_type_from_name_def Let_def)

lemma discover_plugin_fresh:
  "\<not> g_type_from_name r (plugin_type_name p) \<Longrightarrow>
     map_of (types (discover_plugin ok p r)) (plugin_type_name p) = Some (Some p)"
  by (simp add: discover_plugin_def plugin_type_name_def g_type_from_name_def Let_def
      map_add_Some_iff map_of_eq_None_iff)

text \<open>A registered name keeps its type and its element factory through one iteration.\<close>

lemma discover_plugin_keeps:
  assumes "g_type_from_name r n"
  shows "g_type_from_name (discover_plugin ok p r) n \<and>
         map_of (types (discover_plugin ok p r)) n = map_of (types r) n \<and>
         map_of (elements (discover_plugin ok p r)) n = map_of (elements r) n"
proof (cases "g_type_from_name r (plugin_type_name p)")
  case True
  then show ?thesis
    using assms by (simp add: discover_plugin_skips)
next
  case False
  with assms have ne: "plugin_type_name p \<noteq> n"
    by auto
  have "map_of (types r) n \<noteq> None"
    using assms by (simp add: g_type_from_name_def map_of_eq_None_iff)
  then obtain x where x: "map_of (types r) n = Some x"
    by blast
  have ne': "g_strcanon (plugin_uri p) type_name_chars CHR ''-'' \<noteq> n"
    using ne by (simp add: plugin_type_name_def)
  have free: "\<not> g_type_from_name r (g_strcanon (plugin_uri p) type_name_chars CHR ''-'')"
    using False by (simp add: plugin_type_name_def)
  have "g_type_from_name (discover_plugin ok p r) n"
    using assms by (simp add: discover_plugin_def free Let_def g_type_from_name_def)
  moreover have "map_of (types (discover_plugin ok p r)) n = map_of (types r) n"
    using x by (simp add: discover_plugin_def free Let_def map_add_def)
  moreover have "map_of (elements (discover_plugin ok p r)) n = map_of (elements r) n"
    using ne' by (simp add: discover_plugin_def free Let_def map_add_def split: option.split)
  ultimately show ?thesis
    by simp
qed

lemma discover_fold_keeps:
  assumes "g_type_from_name r n"
  shows "g_type_from_name (fold (discover_plugin ok) ps r) n \<and>
         map_of (types (fold (discover_plugin ok) ps r)) n = map_of (types r) n \<and>
         map_of (elements (fold (discover_plugin ok) ps r)) n = map_of (elements r) n"
  using assms
proof (induction ps arbitrary: r)
  case Nil
  then show ?case by simp
next
  case (Cons p ps)
  from discover_plugin_keeps [OF Cons.prems, of ok p]
  show ?case
    using Cons.IH [of "discover_plugin ok p r"] by simp
qed

lemma plugin_type_name_chars: "set (plugin_type_name p) \<subseteq> set type_name_chars"
  by (auto simp: plugin_type_name_def g_strcanon_def type_name_chars_def)

text \<open>
  The same for the entries themselves: the type entries and the element factories
  registered under a registered name are not touched by an iteration.
\<close>

lemma discover_plugin_keeps_entries:
  assumes "g_type_from_name r n"
  shows "filter (\<lambda>t. fst t = n) (types (discover_plugin ok p r)) =
           filter (\<lambda>t. fst t = n) (types r) \<and>
         filter (\<lambda>e. fst e = n) (elements (discover_plugin ok p r)) =
           filter (\<lambda>e. fst e = n) (elements r)"
proof (cases "g_type_from_name r (plugin_type_name p)")
  case True
  then show ?thesis
    by (simp add: discover_plugin_skips)
next
  case False
  with assms have "plugin_type_name p \<noteq> n"
    by auto
  then have ne: "g_strcanon (plugin_uri p) type_name_chars CHR ''-'' \<noteq> n"
    by (simp add: plugin_type_name_def)
  have free: "\<not> g_type_from_name r (g_strcanon (plugin_uri p) type_name_chars CHR ''-'')"
    using False by (simp add: plugin_type_name_def)
  show ?thesis
    using ne by (simp add: discover_plugin_def free Let_def)
qed

lemma discover_fold_keeps_entries:
  assumes "g_type_from_name r n"
  shows "filter (\<lambda>t. fst t = n) (types (fold (discover_plugin ok) ps r)) =
           filter (\<lambda>t. fst t = n) (types r) \<and>
         filter (\<lambda>e. fst e = n) (elements (fold (discover_plugin ok) ps r)) =
           filter (\<lambda>e. fst e = n) (elements r)"
  using assms
proof (induction ps arbitrary: r)
  case Nil
  then show ?case by simp
next
  case (Cons p ps)
  from discover_plugin_keeps [OF Cons.prems, of ok p]
  have "g_type_from_name (discover_plugin ok p r) n"
    by simp
  from Cons.IH [OF this] discover_plugin_keeps_entries [OF Cons.prems, of ok p]
  show ?case
    by simp
qed

text \<open>
  A plugin whose type name is free registers exactly one type under it, with the plugin
  attached, and one element factory when \<open>gst_element_register\<close> succeeds.
\<close>

lemma discover_plugin_fresh_entries:
  assumes "\<not> g_type_from_name r (plugin_type_name p)"
  shows "filter (\<lambda>t. fst t = plugin_type_name p) (types (discover_plugin ok p r)) =
           [(plugin_type_name p, Some p)] \<and>
         filter (\<lambda>e. fst e = plugin_type_name p) (elements (discover_plugin ok p r)) =
           filter (\<lambda>e. fst e = plugin_type_name p) (elements r) @
             (if ok (plugin_type_name p) then [(plugin_type_name p, plugin_type_name p)]
              else [])"
proof -
  have "\<forall>t \<in> set (types r). fst t \<noteq> plugin_type_name p"
    using assms by (force simp: g_type_from_name_def)
  then have none: "filter (\<lambda>t. fst t = plugin_type_name p) (types r) = []"
    by (simp add: filter_empty_conv)
  have free: "\<not> g_type_from_name r (g_strcanon (plugin_uri p) type_name_chars CHR ''-'')"
    using assms by (simp add: plugin_type_name_def)
  show ?thesis
    using none by (simp add: discover_plugin_def free Let_def plugin_type_name_def)
qed

text \<open>
  C7. A type name consists of letters, digits, hyphen and plus. Let two plugins of the
  scan, at positions \<open>i < j\<close>, have URIs that sanitize to the same type name. Then the
  scan returns \<open>TRUE\<close>; handling the second plugin leaves the registry as it found it
  (nothing is registered for it); and at the end of the scan the name has the type
  entries and the element factories it had once the first plugin was handled, none
  added and none replaced. When the name was free before the first plugin, its one type
  is the first plugin's, and the first plugin's element factory is registered under it
  whenever \<open>gst_element_register\<close> succeeded for the name.
\<close>

theorem colliding_type_name_keeps_first:
  assumes "i < j" and "j < length plugins"
    and "plugin_type_name (plugins ! i) = plugin_type_name (plugins ! j)"
  shows "set (plugin_type_name (plugins ! i)) \<subseteq> set type_name_chars \<and>
         fst (lv2_plugin_discover ok plugins r) = True \<and>
         discover_plugin ok (plugins ! j) (scanned ok plugins r j) = scanned ok plugins r j \<and>
         g_type_from_name (snd (lv2_plugin_discover ok plugins r)) (plugin_type_name (plugins ! i)) \<and>
         map_of (types (snd (lv2_plugin_discover ok plugins r))) (plugin_type_name (plugins ! i)) =
           map_of (types (scanned ok plugins r (Suc i))) (plugin_type_name (plugins ! i)) \<and>
         map_of (elements (snd (lv2_plugin_discover ok plugins r))) (plugin_type_name (plugins ! i)) =
           map_of (elements (scanned ok plugins r (Suc i))) (plugin_type_name (plugins ! i)) \<and>
         filter (\<lambda>t. fst t = plugin_type_name (plugins ! i))
             (types (snd (lv2_plugin_discover ok plugins r))) =
           filter (\<lambda>t. fst t = plugin_type_name (plugins ! i))
             (types (scanned ok plugins r (Suc i))) \<and>
         filter (\<lambda>e. fst e = plugin_type_name (plugins ! i))
             (elements (snd (lv2_plugin_discover ok plugins r))) =
           filter (\<lambda>e. fst e = plugin_type_name (plugins ! i))
             (elements (scanned ok plugins r (Suc i))) \<and>
         (\<not> g_type_from_name (scanned ok plugins r i) (plugin_type_name (plugins ! i)) \<longrightarrow>
            map_of (types (snd (lv2_plugin_discover ok plugins r))) (plugin_type_name (plugins ! i)) =
              Some (Some (plugins ! i)) \<and>
            filter (\<lambda>t. fst t = plugin_type_name (plugins ! i))
                (types (snd (lv2_plugin_discover ok plugins r))) =
              [(plugin_type_name (plugins ! i), Some (plugins ! i))] \<and>
            filter (\<lambda>e. fst e = plugin_type_name (plugins ! i))
                (elements (snd (lv2_plugin_discover ok plugins r))) =
              filter (\<lambda>e. fst e = plugin_type_name (plugins ! i))
                (elements (scanned ok plugins r i)) @
              (if ok (plugin_type_name (plugins ! i))
               then [(plugin_type_name (plugins ! i), plugin_type_name (plugins ! i))]
               else []))"
proof -
  let ?n = "plugin_type_name (plugins ! i)"
  let ?first = "scanned ok plugins r (Suc i)"
  have i: "i < length plugins"
    using assms(1,2) by simp
  have first: "?first = discover_plugin ok (plugins ! i) (scanned ok plugins r i)"
    using i by (rule scanned_Suc)
  have reg: "g_type_from_name ?first ?n"
    unfolding first by (rule discover_plugin_registers)
  have "take (Suc i) (take j plugins) = take (Suc i) plugins"
    using assms(1) by (simp add: min_def)
  then have split_j: "take j plugins = take (Suc i) plugins @ drop (Suc i) (take j plugins)"
    using append_take_drop_id [of "Suc i" "take j plugins"] by simp
  have "fold (discover_plugin ok) (take (Suc i) plugins @ drop (Suc i) (take j plugins)) r =
      fold (discover_plugin ok) (drop (Suc i) (take j plugins)) ?first"
    by (simp only: fold_append comp_apply scanned_fold)
  then have "scanned ok plugins r j =
      fold (discover_plugin ok) (drop (Suc i) (take j plugins)) ?first"
    using split_j by (simp add: scanned_fold)
  then have "g_type_from_name (scanned ok plugins r j) (plugin_type_name (plugins ! j))"
    using discover_fold_keeps [OF reg, of ok "drop (Suc i) (take j plugins)"] assms(3) by simp
  then have skip: "discover_plugin ok (plugins ! j) (scanned ok plugins r j) = scanned ok plugins r j"
    by (rule discover_plugin_skips)
  have "fold (discover_plugin ok) (take (Suc i) plugins @ drop (Suc i) plugins) r =
      fold (discover_plugin ok) (drop (Suc i) plugins) ?first"
    by (simp only: fold_append comp_apply scanned_fold)
  then have "fold (discover_plugin ok) plugins r =
      fold (discover_plugin ok) (drop (Suc i) plugins) ?first"
    by simp
  then have final: "snd (lv2_plugin_discover ok plugins r) =
      fold (discover_plugin ok) (drop (Suc i) plugins) ?first"
    by (simp add: lv2_plugin_discover_def discover_from_fold)
  note keep = discover_fold_keeps [OF reg, of ok "drop (Suc i) plugins", folded final]
  note entries = discover_fold_keeps_entries [OF reg, of ok "drop (Suc i) plugins", folded final]
  have fresh: "map_of (types (snd (lv2_plugin_discover ok plugins r))) ?n = Some (Some (plugins ! i))"
    if "\<not> g_type_from_name (scanned ok plugins r i) ?n"
    using keep discover_plugin_fresh [OF that, of ok] by (simp add: first)
  have fresh_entries:
    "filter (\<lambda>t. fst t = ?n) (types (snd (lv2_plugin_discover ok plugins r))) =
       [(?n, Some (plugins ! i))]"
    "filter (\<lambda>e. fst e = ?n) (elements (snd (lv2_plugin_discover ok plugins r))) =
       filter (\<lambda>e. fst e = ?n) (elements (scanned ok plugins r i)) @
         (if ok ?n then [(?n, ?n)] else [])"
    if "\<not> g_type_from_name (scanned ok plugins r i) ?n"
    using entries discover_plugin_fresh_entries [OF that, of ok] by (simp_all add: first)
  show ?thesis
    using skip keep entries fresh fresh_entries plugin_type_name_chars [of "plugins ! i"]
    by (simp add: lv2_plugin_discover_def)
qed

theorem colliding_type_name_keeps_first_witness:
  "plugin_type_name example_plugin = ''http---example-org-lv2-amp-1'' \<and>
   plugin_type_name clash_plugin = ''http---example-org-lv2-amp-1'' \<and>
   fst (lv2_plugin_discover register_always [example_plugin, clash_plugin] base_registry) = True \<and>
   map_of (types (snd (lv2_plugin_discover register_always [example_plugin, clash_plugin]
       base_registry))) ''http---example-org-lv2-amp-1'' = Some (Some example_plugin) \<and>
   filter (\<lambda>t. fst t = ''http---example-org-lv2-amp-1'')
     (types (snd (lv2_plugin_discover register_always [example_plugin, clash_plugin]
       base_registry))) = [(''http---example-org-lv2-amp-1'', Some example_plugin)] \<and>
   filter (\<lambda>e. fst e = ''http---example-org-lv2-amp-1'')
     (elements (snd (lv2_plugin_discover register_always [example_plugin, clash_plugin]
       base_registry))) =
     [(''http---example-org-lv2-amp-1'', ''http---example-org-lv2-amp-1'')]"
proof -
  have n1: "plugin_type_name example_plugin = ''http---example-org-lv2-amp-1''"
    by (simp add: plugin_type_name_def example_plugin_def g_strcanon_def type_name_chars_def)
  have n2: "plugin_type_name clash_plugin = ''http---example-org-lv2-amp-1''"
    by (simp add: plugin_type_name_def clash_plugin_def g_strcanon_def type_name_chars_def)
  have a: "(0::nat) < 1" "1 < length [example_plugin, clash_plugin]"
    "plugin_type_name ([example_plugin, clash_plugin] ! 0) =
       plugin_type_name ([example_plugin, clash_plugin] ! 1)"
    by (simp_all add: n1 n2)
  have start: "scanned register_always [example_plugin, clash_plugin] base_registry 0 =
      base_registry"
    by (simp add: scanned_fold)
  have free: "\<not> g_type_from_name
      (scanned register_always [example_plugin, clash_plugin] base_registry 0)
      ''http---example-org-lv2-amp-1''"
    unfolding start by (simp add: g_type_from_name_def base_registry_def)
  have none: "filter (\<lambda>e. fst e = ''http---example-org-lv2-amp-1'') (elements base_registry) = []"
    by (simp add: base_registry_def)
  note t = colliding_type_name_keeps_first [OF a, of register_always base_registry,
      unfolded nth_Cons_0 n1 start]
  from t have ret: "fst (lv2_plugin_discover register_always [example_plugin, clash_plugin]
      base_registry) = True"
    by blast
  from t free [unfolded start] have
    "map_of (types (snd (lv2_plugin_discover register_always
      [example_plugin, clash_plugin] base_registry))) ''http---example-org-lv2-amp-1'' =
      Some (Some example_plugin)"
    "filter (\<lambda>t. fst t = ''http---example-org-lv2-amp-1'')
      (types (snd (lv2_plugin_discover register_always [example_plugin, clash_plugin]
        base_registry))) = [(''http---example-org-lv2-amp-1'', Some example_plugin)]"
    "filter (\<lambda>e. fst e = ''http---example-org-lv2-amp-1'')
      (elements (snd (lv2_plugin_discover register_always [example_plugin, clash_plugin]
        base_registry))) =
      filter (\<lambda>e. fst e = ''http---example-org-lv2-amp-1'') (elements base_registry) @
        (if register_always ''http---example-org-lv2-amp-1''
         then [(''http---example-org-lv2-amp-1'', ''http---example-org-lv2-amp-1'')] else [])"
    by blast+
  with ret n1 n2 none show ?thesis
    by (simp add: register_always_def)
qed

end
